theory Spec2Isabelle
  imports Main
begin

section \<open>JavaScript values of query descriptions\<close>

text \<open>
  Filter, include and order descriptions are plain object literals that the compilers only
  read, so they are modelled as immutable trees. An object is the list of its own enumerable
  properties in the order \<^verbatim>\<open>Object.entries\<close> lists them. Numbers are the integers JavaScript prints
  in plain decimal notation (those below \<open>10^21\<close> in absolute value; larger ones and fractions
  are outside the model).
\<close>

datatype jsval =
    JUndefined
  | JNull
  | JBool bool
  | JNum int
  | JStr string
  | JObj "(string \<times> jsval) list"

text \<open>
  What a call can throw: a failed \<^verbatim>\<open>assert\<close>, a \<^verbatim>\<open>TypeError\<close> of the runtime, or whatever the
  external executor throws.
\<close>

datatype error =
    AssertionError string
  | TypeError string
  | ExecutorFailure string

fun natToString :: "nat \<Rightarrow> string" where
  "natToString n =
     (if n < 10 then [''0123456789'' ! n]
      else natToString (n div 10) @ [''0123456789'' ! (n mod 10)])"

declare natToString.simps [simp del]

definition intToString :: "int \<Rightarrow> string" where
  "intToString i = (if i < 0 then CHR ''-'' # natToString (nat (- i)) else natToString (nat i))"

text \<open>\<^verbatim>\<open>String(v)\<close>, which is also what a template literal does to an interpolated value.\<close>

fun jsString :: "jsval \<Rightarrow> string" where
  "jsString JUndefined = ''undefined''"
| "jsString JNull = ''null''"
| "jsString (JBool b) = (if b then ''true'' else ''false'')"
| "jsString (JNum i) = intToString i"
| "jsString (JStr s) = s"
| "jsString (JObj kvs) = ''[object Object]''"

text \<open>
  \<^verbatim>\<open>Object.entries(v)\<close>: a \<^verbatim>\<open>TypeError\<close> on \<^verbatim>\<open>undefined\<close> and \<^verbatim>\<open>null\<close>, nothing for a boolean or a
  number, the indexed characters of a string, the properties of an object.
\<close>

fun stringEntries :: "nat \<Rightarrow> string \<Rightarrow> (string \<times> jsval) list" where
  "stringEntries i [] = []"
| "stringEntries i (c # cs) = (natToString i, JStr [c]) # stringEntries (Suc i) cs"

fun objectEntries :: "jsval \<Rightarrow> error + (string \<times> jsval) list" where
  "objectEntries JUndefined = Inl (TypeError ''Cannot convert undefined or null to object'')"
| "objectEntries JNull = Inl (TypeError ''Cannot convert undefined or null to object'')"
| "objectEntries (JBool b) = Inr []"
| "objectEntries (JNum i) = Inr []"
| "objectEntries (JStr s) = Inr (stringEntries 0 s)"
| "objectEntries (JObj kvs) = Inr kvs"

definition objectKeys :: "jsval \<Rightarrow> error + string list" where
  "objectKeys v = (case objectEntries v of Inl e \<Rightarrow> Inl e | Inr kvs \<Rightarrow> Inr (map fst kvs))"

section \<open>SQL fragments\<close>

text \<open>
  Modelled from the spec: the tagged template \<^verbatim>\<open>sql\<close> (imported from \<^verbatim>\<open>./sql\<close>) is not among the
  sources; the spec describes it as an opaque builder of fragments that combine with other
  fragments. A fragment records what the code hands to the tag: \<open>Template\<close> is one use of
  the tag, its literal texts (\<open>Text\<close>) alternating with its interpolated arguments;
  \<open>Identifier s\<close> is \<^verbatim>\<open>sql(s)\<close>; \<open>Parameter v\<close> is an interpolated JavaScript value;
  \<open>Fragments\<close> is an interpolated array of fragments; \<open>Helper data keys\<close> is
  \<^verbatim>\<open>sql(data, keys)\<close>.
\<close>

datatype SqlFragment =
    Text string
  | Identifier string
  | Parameter jsval
  | Helper "(string \<times> jsval) list" "string list"
  | Template "SqlFragment list"
  | Fragments "SqlFragment list"

text \<open>
  What a fragment reads as: the sequence of its tokens. A literal text contributes its
  whitespace-separated words as keywords; identifiers, parameters and helpers are atoms.
\<close>

datatype token =
    Kw string
  | Id string
  | Par jsval
  | Hlp "(string \<times> jsval) list" "string list"

definition isSpace :: "char \<Rightarrow> bool" where
  "isSpace c = (c = CHR '' '' \<or> c = CHR 0x09 \<or> c = CHR 0x0A \<or> c = CHR 0x0B \<or> c = CHR 0x0C \<or> c = CHR 0x0D)"

fun wordsFrom :: "string \<Rightarrow> string \<Rightarrow> string list" where
  "wordsFrom w [] = (if w = [] then [] else [w])"
| "wordsFrom w (c # cs) =
     (if isSpace c then (if w = [] then wordsFrom [] cs else w # wordsFrom [] cs)
      else wordsFrom (w @ [c]) cs)"

definition wordsOf :: "string \<Rightarrow> string list" where
  "wordsOf s = wordsFrom [] s"

fun sqlTokens :: "SqlFragment \<Rightarrow> token list" where
  "sqlTokens (Text s) = map Kw (wordsOf s)"
| "sqlTokens (Identifier s) = [Id s]"
| "sqlTokens (Parameter v) = [Par v]"
| "sqlTokens (Helper d ks) = [Hlp d ks]"
| "sqlTokens (Template fs) = concat (map sqlTokens fs)"
| "sqlTokens (Fragments fs) = concat (map sqlTokens fs)"

definition countKw :: "string \<Rightarrow> SqlFragment \<Rightarrow> nat" where
  "countKw w f = length (filter (\<lambda>t. t = Kw w) (sqlTokens f))"

text \<open>The token sequences \<open>xs\<close>, with the separator \<open>sep\<close> between every two of them.\<close>

fun joinTokens :: "token list \<Rightarrow> token list list \<Rightarrow> token list" where
  "joinTokens sep [] = []"
| "joinTokens sep [x] = x"
| "joinTokens sep (x # y # rest) = x @ sep @ joinTokens sep (y # rest)"

section \<open>Schema registry\<close>

record MockColumnReference =
  tableName :: string
  columnName :: string

text \<open>
  Modelled from the spec: the classes \<^verbatim>\<open>MockColumn\<close> and \<^verbatim>\<open>MockTable\<close> are imported by
  \<^verbatim>\<open>MockDatabase.ts\<close> but are not among the sources. A column has a name, an opaque SQL type,
  three modifier flags and an optional reference; a table has a name and its columns, and
  \<open>getColumn\<close> looks a column up by name (no column when absent). The tables of a database
  are its own properties: a table name that \<^verbatim>\<open>Object.prototype\<close> defines is outside the model.
\<close>

record MockColumn =
  name :: string
  columnType :: string
  modifierPrimaryKey :: bool
  modifierNotNull :: bool
  modifierDefault :: bool
  reference :: "MockColumnReference option"

record MockTable =
  table_name :: string
  columns :: "(string \<times> MockColumn) list"

definition getColumn :: "MockTable \<Rightarrow> string \<Rightarrow> MockColumn option" where
  "getColumn t c = map_of (columns t) c"

record MockDatabase =
  tables :: "(string \<times> MockTable) list"

definition quoted :: "string \<Rightarrow> string" where
  "quoted s = [CHR 0x22] @ s @ [CHR 0x22]"

definition getTable :: "MockDatabase \<Rightarrow> string \<Rightarrow> error + MockTable" where
  "getTable db t =
     (case map_of (tables db) t of
        None \<Rightarrow> Inl (AssertionError (''table with name '' @ quoted t @ '' does not exist''))
      | Some table \<Rightarrow> Inr table)"

section \<open>The model class of MockDatabase.ts\<close>

record Model =
  this_tableName :: string
  this_database :: MockDatabase

definition findReference :: "Model \<Rightarrow> string \<Rightarrow> string \<Rightarrow> error + MockColumn" where
  "findReference m c parentTable =
     (case getTable (this_database m) parentTable of
        Inl e \<Rightarrow> Inl e
      | Inr table \<Rightarrow>
          (case getColumn table c of
             None \<Rightarrow> Inl (AssertionError (''expected to find column '' @ quoted c
                        @ '' in table '' @ quoted parentTable))
           | Some column \<Rightarrow>
               (case reference column of
                  None \<Rightarrow> Inl (AssertionError (''expected column '' @ quoted c
                             @ '' in table '' @ quoted parentTable @ '' to have a reference''))
                | Some r \<Rightarrow> Inr column)))"

definition createIdentifier :: "string \<Rightarrow> string \<Rightarrow> SqlFragment" where
  "createIdentifier column parentTable = Identifier (parentTable @ ''.'' @ column)"

definition emptySql :: SqlFragment where
  "emptySql = Template [Text '''']"

fun joinFrom :: "nat \<Rightarrow> nat \<Rightarrow> SqlFragment \<Rightarrow> SqlFragment list \<Rightarrow> SqlFragment list" where
  "joinFrom i n joinBy [] = []"
| "joinFrom i n joinBy (fragment # rest) =
     Template [Text '''', fragment, Text '''', (if i \<noteq> n - 1 then joinBy else emptySql), Text '''']
       # joinFrom (Suc i) n joinBy rest"

definition joinByFragment :: "SqlFragment list \<Rightarrow> SqlFragment \<Rightarrow> SqlFragment" where
  "joinByFragment fragments joinBy =
     (if length fragments = 0 then emptySql
      else Template [Text '''', Fragments (joinFrom 0 (length fragments) joinBy fragments), Text ''''])"

subsection \<open>WHERE\<close>

definition operatorFragment :: "SqlFragment \<Rightarrow> string \<Rightarrow> jsval \<Rightarrow> SqlFragment option" where
  "operatorFragment selector operator targetValue =
     (if operator = ''eq'' then
        Some (if targetValue = JNull then Template [Text '''', selector, Text '' IS NULL'']
              else Template [Text '''', selector, Text ('' = '' @ [CHR 0x27]), Parameter targetValue, Text [CHR 0x27]])
      else if operator = ''neq'' then
        Some (if targetValue = JNull then Template [Text '''', selector, Text '' IS NOT NULL'']
              else Template [Text '''', selector, Text ('' != '' @ [CHR 0x27]), Parameter targetValue, Text [CHR 0x27]])
      else if operator = ''contains'' then
        Some (Template [Text '''', selector, Text ('' LIKE '' @ [CHR 0x27] @ ''%''), Parameter targetValue,
                        Text (''%'' @ [CHR 0x27])])
      else if operator = ''startsWith'' then
        Some (Template [Text '''', selector, Text ('' LIKE '' @ [CHR 0x27]), Parameter targetValue,
                        Text (''%'' @ [CHR 0x27])])
      else if operator = ''endsWith'' then
        Some (Template [Text '''', selector, Text ('' LIKE '' @ [CHR 0x27] @ ''%''), Parameter targetValue,
                        Text [CHR 0x27]])
      else if operator = ''gt'' then
        Some (Template [Text '''', selector, Text '' > '', Parameter targetValue, Text ''''])
      else if operator = ''lt'' then
        Some (Template [Text '''', selector, Text '' < '', Parameter targetValue, Text ''''])
      else if operator = ''gte'' then
        Some (Template [Text '''', selector, Text '' >= '', Parameter targetValue, Text ''''])
      else if operator = ''lte'' then
        Some (Template [Text '''', selector, Text '' >= '', Parameter targetValue, Text ''''])
      else None)"

text \<open>
  \<^verbatim>\<open>generateWhereObject\<close> and \<^verbatim>\<open>generateWhere\<close> call each other; \<open>whereFragments\<close> is the
  \<^verbatim>\<open>forEach\<close> loop of \<^verbatim>\<open>generateWhere\<close> that pushes one fragment per entry, in entry order. An
  exception of \<^verbatim>\<open>findReference\<close> is caught and leaves \<^verbatim>\<open>column\<close> null; destructuring the first
  entry of an empty operator object throws.
\<close>

function generateWhereObject :: "Model \<Rightarrow> string \<Rightarrow> jsval \<Rightarrow> string \<Rightarrow> error + SqlFragment"
  and generateWhere :: "Model \<Rightarrow> (string \<times> jsval) list \<Rightarrow> string \<Rightarrow> bool \<Rightarrow> error + SqlFragment"
  and whereFragments :: "Model \<Rightarrow> (string \<times> jsval) list \<Rightarrow> string \<Rightarrow> error + SqlFragment list"
where
  "generateWhereObject m key operators parentTable =
     (let selector = createIdentifier key parentTable;
          fallThrough = Inr (Template [Text '''', selector, Text '' = '',
                                       Parameter (JStr (jsString operators)), Text ''''])
      in case operators of
           JNull \<Rightarrow> Inr (Template [Text '''', selector, Text '' IS NULL''])
         | JObj entries \<Rightarrow>
             (case findReference m key parentTable of
                Inr column \<Rightarrow>
                  (case reference column of
                     None \<Rightarrow> Inl (TypeError ''Cannot read properties of null'')
                   | Some r \<Rightarrow> generateWhere m entries (tableName r) False)
              | Inl caught \<Rightarrow>
                  (case entries of
                     [] \<Rightarrow> Inl (TypeError ''undefined is not iterable'')
                   | (operator, targetValue) # others \<Rightarrow>
                       (case operatorFragment selector operator targetValue of
                          Some fragment \<Rightarrow> Inr fragment
                        | None \<Rightarrow> fallThrough)))
         | other \<Rightarrow> fallThrough)"
| "generateWhere m entries parentTable includeWhere =
     (case whereFragments m entries parentTable of
        Inl e \<Rightarrow> Inl e
      | Inr fragments \<Rightarrow>
          Inr (Template [Text '''',
                         (if includeWhere \<and> length fragments > 0 then Template [Text ''WHERE''] else emptySql),
                         Text '' '',
                         joinByFragment fragments (Template [Text '' AND '']),
                         Text '''']))"
| "whereFragments m [] parentTable = Inr []"
| "whereFragments m ((key, operators) # rest) parentTable =
     (case generateWhereObject m key operators parentTable of
        Inl e \<Rightarrow> Inl e
      | Inr fragment \<Rightarrow>
          (case whereFragments m rest parentTable of
             Inl e \<Rightarrow> Inl e
           | Inr fragments \<Rightarrow> Inr (fragment # fragments)))"
  by pat_completeness auto
termination
  by (relation "measure (\<lambda>x. case x of
          Inl (m, key, operators, parentTable) \<Rightarrow> 2 * size operators
        | Inr (Inl (m, entries, parentTable, includeWhere)) \<Rightarrow>
            2 * size_list (size_prod (\<lambda>k. 0) size) entries + 1
        | Inr (Inr (m, entries, parentTable)) \<Rightarrow>
            2 * size_list (size_prod (\<lambda>k. 0) size) entries)") auto

subsection \<open>SELECT and INCLUDE\<close>

text \<open>
  \<open>selectColumn\<close> is the callback \<^verbatim>\<open>generateSelect\<close> maps over the requested columns. The alias is
  added when \<^verbatim>\<open>referenceColumnName\<close> is truthy: given, and not the empty string.
\<close>

definition selectColumn :: "string \<Rightarrow> string option \<Rightarrow> string \<Rightarrow> SqlFragment" where
  "selectColumn parentTable referenceColumnName column =
     Template [Text '''', createIdentifier column parentTable, Text '' '',
               (case referenceColumnName of
                  None \<Rightarrow> emptySql
                | Some r \<Rightarrow>
                    if r = [] then emptySql
                    else Template [Text ''AS '', Identifier (''__'' @ r @ ''__'' @ column), Text '''']),
               Text '''']"

definition generateSelect ::
  "string list \<Rightarrow> string \<Rightarrow> string option \<Rightarrow> bool \<Rightarrow> bool \<Rightarrow> SqlFragment" where
  "generateSelect select parentTable referenceColumnName includeReturning includeComma =
     (let cols =
            (if length select > 0
             then joinByFragment (map (selectColumn parentTable referenceColumnName) select)
                    (Template [Text '', ''])
             else Template [Text '''', Identifier parentTable, Text ''.*''])
      in Template [Text '''', (if includeReturning then Template [Text ''RETURNING''] else emptySql),
                   Text '' '', cols, Text '''',
                   (if includeComma then Template [Text '',''] else emptySql), Text ''''])"

text \<open>
  The loop of \<^verbatim>\<open>generateInclude\<close>, with the two arrays it pushes to. \<^verbatim>\<open>findReference\<close> is not
  caught here: a key that is no relationship column fails the whole call.
\<close>

fun includeLoop ::
  "Model \<Rightarrow> (string \<times> jsval) list \<Rightarrow> SqlFragment list \<Rightarrow> SqlFragment list
     \<Rightarrow> error + (SqlFragment list \<times> SqlFragment list)" where
  "includeLoop m [] joinFragment selectFragment = Inr (joinFragment, selectFragment)"
| "includeLoop m ((colName, select) # rest) joinFragment selectFragment =
     (case findReference m colName (this_tableName m) of
        Inl e \<Rightarrow> Inl e
      | Inr column \<Rightarrow>
          (case reference column of
             None \<Rightarrow> Inl (TypeError ''Cannot read properties of null'')
           | Some r \<Rightarrow>
               (let joined = joinFragment @
                      [Template [Text ''JOIN '', Identifier (tableName r), Text '' ON '',
                                 createIdentifier (name column) (this_tableName m), Text '' = '',
                                 createIdentifier (columnName r) (tableName r), Text '''']]
                in case select of
                     JBool b \<Rightarrow> includeLoop m rest joined selectFragment
                   | other \<Rightarrow>
                       (case objectKeys select of
                          Inl e \<Rightarrow> Inl e
                        | Inr keys \<Rightarrow>
                            includeLoop m rest joined
                              (selectFragment @
                                 [generateSelect keys (tableName r) (Some colName) False False])))))"

definition generateInclude ::
  "Model \<Rightarrow> (string \<times> jsval) list \<Rightarrow> error + (SqlFragment list \<times> SqlFragment list)" where
  "generateInclude m include = includeLoop m include [] []"

subsection \<open>ORDER BY\<close>

text \<open>
  \<^verbatim>\<open>generateOrderByObject\<close> calls itself on the value of every key that is a relationship column
  of the model's own table (\<^verbatim>\<open>findReference\<close> is called without a parent table), whatever that
  value is. The recursion need not end: the entries of a one-character string are that string
  again under the key \<open>0\<close>. The first argument bounds the depth of the calls; \<open>None\<close> is a
  computation that exceeds it. \<open>orderByLoop\<close> is the loop over the entries, with the two arrays
  it pushes to.
\<close>

fun generateOrderByObject ::
  "nat \<Rightarrow> Model \<Rightarrow> jsval \<Rightarrow> string \<Rightarrow> (error + (SqlFragment list \<times> SqlFragment list)) option"
  and orderByLoop ::
  "nat \<Rightarrow> Model \<Rightarrow> (string \<times> jsval) list \<Rightarrow> string \<Rightarrow> SqlFragment list \<Rightarrow> SqlFragment list
     \<Rightarrow> (error + (SqlFragment list \<times> SqlFragment list)) option"
where
  "generateOrderByObject 0 m orderBy parentTable = None"
| "generateOrderByObject (Suc depth) m orderBy parentTable =
     (case objectEntries (if orderBy = JUndefined then JObj [] else orderBy) of
        Inl e \<Rightarrow> Some (Inl e)
      | Inr entries \<Rightarrow> orderByLoop depth m entries parentTable [] [])"
| "orderByLoop depth m [] parentTable ascFragment descFragment =
     Some (Inr (ascFragment, descFragment))"
| "orderByLoop depth m ((colName, order) # rest) parentTable ascFragment descFragment =
     (let own = Template [Text '''', createIdentifier colName parentTable, Text ''''];
          descs = (if order = JStr ''DESC'' then descFragment @ [own] else descFragment);
          ascs = (if order \<noteq> JStr ''DESC'' \<and> order = JStr ''ASC'' then ascFragment @ [own]
                  else ascFragment)
      in case findReference m colName (this_tableName m) of
           Inl caught \<Rightarrow> orderByLoop depth m rest parentTable ascs descs
         | Inr column \<Rightarrow>
             (case reference column of
                None \<Rightarrow> orderByLoop depth m rest parentTable ascs descs
              | Some r \<Rightarrow>
                  (case generateOrderByObject depth m order (tableName r) of
                     None \<Rightarrow> None
                   | Some (Inl e) \<Rightarrow> Some (Inl e)
                   | Some (Inr (a, d)) \<Rightarrow>
                       orderByLoop depth m rest parentTable (ascs @ a) (descs @ d))))"

text \<open>
  The nesting of an order description: how deep the calls of \<^verbatim>\<open>generateOrderByObject\<close> can go
  on it when no column of the model's table named \<open>0\<close> is a relationship. A string counts two:
  the call on the string, and the calls on its characters.
\<close>

function jsDepth :: "jsval \<Rightarrow> nat" and entriesDepth :: "(string \<times> jsval) list \<Rightarrow> nat" where
  "jsDepth (JObj kvs) = Suc (entriesDepth kvs)"
| "jsDepth (JStr s) = 2"
| "jsDepth JUndefined = 1"
| "jsDepth JNull = 1"
| "jsDepth (JBool b) = 1"
| "jsDepth (JNum i) = 1"
| "entriesDepth [] = 0"
| "entriesDepth ((k, v) # rest) = max (jsDepth v) (entriesDepth rest)"
  by pat_completeness auto
termination
  by (relation "measure (\<lambda>x. case x of
          Inl v \<Rightarrow> 2 * size v
        | Inr kvs \<Rightarrow> 2 * size_list (size_prod (\<lambda>k. 0) size) kvs + 1)") auto

definition orderByFragment :: "SqlFragment list \<Rightarrow> SqlFragment list \<Rightarrow> SqlFragment" where
  "orderByFragment ascFragment descFragment =
     (let hasAsc = length ascFragment > 0; hasDesc = length descFragment > 0
      in if \<not> hasAsc \<and> \<not> hasDesc then emptySql
         else Template
           [Text ''\<newline>      ORDER BY \<newline>        '',
            (if hasAsc
             then Template [Text '''', joinByFragment ascFragment (Template [Text '', '']), Text '' ASC'',
                            (if hasDesc then Template [Text '', ''] else emptySql), Text '''']
             else emptySql),
            Text '' \<newline>        '',
            (if hasDesc
             then Template [Text '''', joinByFragment descFragment (Template [Text '', '']), Text '' DESC'']
             else emptySql),
            Text ''\<newline>    ''])"

definition generateOrderBy :: "nat \<Rightarrow> Model \<Rightarrow> jsval \<Rightarrow> (error + SqlFragment) option" where
  "generateOrderBy depth m orderBy =
     (case generateOrderByObject depth m orderBy (this_tableName m) of
        None \<Rightarrow> None
      | Some (Inl e) \<Rightarrow> Some (Inl e)
      | Some (Inr (ascFragment, descFragment)) \<Rightarrow> Some (Inr (orderByFragment ascFragment descFragment)))"

section \<open>Rows on the heap\<close>

text \<open>
  A row is a mutable object, and \<^verbatim>\<open>formatRow\<close> copies one and then writes to the copy, so rows
  live in an explicit store: a heap is the list of the objects allocated so far, an address
  is an index into it, and a fresh object is appended. An object is the list of its own
  enumerable properties in the order JavaScript enumerates them; a property value is a
  scalar or the address of another object (an array is an object with index keys).
\<close>

type_synonym addr = nat

datatype rowval =
    RUndefined
  | RNull
  | RBool bool
  | RNum int
  | RStr string
  | RRef addr

type_synonym object = "(string \<times> rowval) list"

type_synonym heap = "object list"

definition props :: "heap \<Rightarrow> addr \<Rightarrow> object" where
  "props h a = (if a < length h then h ! a else [])"

definition getProp :: "object \<Rightarrow> string \<Rightarrow> rowval" where
  "getProp obj k = (case map_of obj k of None \<Rightarrow> RUndefined | Some v \<Rightarrow> v)"

definition deleteProp :: "object \<Rightarrow> string \<Rightarrow> object" where
  "deleteProp obj k = filter (\<lambda>kv. fst kv \<noteq> k) obj"

text \<open>
  Assignment keeps the place of a property the object has. A new property goes to the end,
  unless its key is an array index (the canonical decimal of a number below \<open>2^32 - 1\<close>):
  index keys are enumerated first, in ascending order.
\<close>

definition isDigit :: "char \<Rightarrow> bool" where
  "isDigit c = (c \<in> set ''0123456789'')"

definition digitsValue :: "string \<Rightarrow> nat" where
  "digitsValue s = foldl (\<lambda>n c. 10 * n + (of_char c - 48)) 0 s"

definition isArrayIndex :: "string \<Rightarrow> bool" where
  "isArrayIndex s =
     (s \<noteq> [] \<and> list_all isDigit s \<and> (length s = 1 \<or> hd s \<noteq> CHR ''0'') \<and> digitsValue s < 4294967295)"

fun insertIndex :: "string \<Rightarrow> rowval \<Rightarrow> object \<Rightarrow> object" where
  "insertIndex k v [] = [(k, v)]"
| "insertIndex k v ((k', v') # rest) =
     (if isArrayIndex k' \<and> digitsValue k' < digitsValue k then (k', v') # insertIndex k v rest
      else (k, v) # (k', v') # rest)"

definition setProp :: "object \<Rightarrow> string \<Rightarrow> rowval \<Rightarrow> object" where
  "setProp obj k v =
     (if k \<in> set (map fst obj) then map (\<lambda>kv. if fst kv = k then (k, v) else kv) obj
      else if isArrayIndex k then insertIndex k v obj
      else obj @ [(k, v)])"

subsection \<open>The row reshaper\<close>

text \<open>
  \<^verbatim>\<open>key.split("__")\<close>: the separator is matched from the left, without overlap. \<open>trim\<close> drops
  the ASCII white space at both ends; keys are ASCII strings, so the Unicode white space
  \<^verbatim>\<open>String.prototype.trim\<close> also drops does not occur.
\<close>

fun splitDunder :: "string \<Rightarrow> string \<Rightarrow> string list" where
  "splitDunder part [] = [part]"
| "splitDunder part [c] = [part @ [c]]"
| "splitDunder part (c # d # cs) =
     (if c = CHR ''_'' \<and> d = CHR ''_'' then part # splitDunder [] cs
      else splitDunder (part @ [c]) (d # cs))"

definition trim :: "string \<Rightarrow> string" where
  "trim s = rev (dropWhile isSpace (rev (dropWhile isSpace s)))"

definition startsWithDunder :: "string \<Rightarrow> bool" where
  "startsWithDunder key = (take 2 key = ''__'')"

text \<open>The parts of a key: split at the marker, each part trimmed, the empty parts dropped.\<close>

definition keyParts :: "string \<Rightarrow> string list" where
  "keyParts key = filter (\<lambda>p. length p > 0) (map trim (splitDunder [] key))"

text \<open>Whether a string has two underscores in a row (no part of a key has).\<close>

fun hasDunder :: "string \<Rightarrow> bool" where
  "hasDunder (c # d # cs) = ((c = CHR ''_'' \<and> d = CHR ''_'') \<or> hasDunder (d # cs))"
| "hasDunder cs = False"

text \<open>
  The body of the loop for one alias-marked key of the copy at address \<open>row\<close>. A missing
  element of the destructured array is \<^verbatim>\<open>undefined\<close>, which as a property key reads
  \<open>undefined\<close>. \<^verbatim>\<open>typeof\<close> is \<open>object\<close> for \<^verbatim>\<open>null\<close> and for an object; spreading \<^verbatim>\<open>null\<close> copies
  nothing. The object literal allocates a new object.
\<close>

definition formatKey :: "addr \<Rightarrow> string \<Rightarrow> heap \<Rightarrow> heap" where
  "formatKey row key h =
     (let cachedValue = getProp (props h row) key;
          h1 = h[row := deleteProp (props h row) key];
          parts = keyParts key;
          referenceColumnName = (case parts of [] \<Rightarrow> ''undefined'' | p # ps \<Rightarrow> p);
          subKey = (case parts of p # q # ps \<Rightarrow> q | other \<Rightarrow> ''undefined'');
          spread = (case getProp (props h1 row) referenceColumnName of
                      RRef a \<Rightarrow> props h1 a
                    | other \<Rightarrow> []);
          nested = length h1;
          h2 = h1 @ [setProp spread subKey cachedValue]
      in h2[row := setProp (props h2 row) referenceColumnName (RRef nested)])"

fun formatKeys :: "addr \<Rightarrow> string list \<Rightarrow> heap \<Rightarrow> heap" where
  "formatKeys row [] h = h"
| "formatKeys row (key # keys) h =
     formatKeys row keys (if startsWithDunder key then formatKey row key h else h)"

text \<open>
  \<^verbatim>\<open>formatRow\<close>: the copy is a new object at the next free address; the loop runs over the keys
  the copy has before the loop starts. The result is the address of the copy and the heap.
\<close>

definition formatRow :: "heap \<Rightarrow> addr \<Rightarrow> addr \<times> heap" where
  "formatRow h rowSource =
     (let row = length h; h1 = h @ [props h rowSource]
      in (row, formatKeys row (map fst (props h1 row)) h1))"

fun formatRows :: "heap \<Rightarrow> addr list \<Rightarrow> addr list \<times> heap" where
  "formatRows h [] = ([], h)"
| "formatRows h (r # rs) =
     (case formatRow h r of
        (r', h') \<Rightarrow> (case formatRows h' rs of (rs', h'') \<Rightarrow> (r' # rs', h'')))"

section \<open>The query facade\<close>

text \<open>
  The executor is the external \<^verbatim>\<open>sql\<close> tag awaited as a query: it is given the statement and
  returns the addresses of the result rows, or throws. The heap passed to \<^verbatim>\<open>findMany\<close> is the
  heap in which these rows are allocated.
\<close>

type_synonym executor = "SqlFragment \<Rightarrow> error + addr list"

record FindArgs =
  find_select :: "string list option"
  find_where :: "(string \<times> jsval) list option"
  find_include :: "(string \<times> jsval) list option"

record FindManyArgs =
  args_select :: "string list option"
  args_where :: "(string \<times> jsval) list option"
  args_include :: "(string \<times> jsval) list option"
  args_limit :: "int option"
  args_orderBy :: "(string \<times> jsval) list option"

record CreateArgs =
  create_select :: "string list option"
  create_data :: "(string \<times> jsval) list"

record UpdateArgs =
  update_select :: "string list option"
  update_data :: "(string \<times> jsval) list"
  update_where :: "(string \<times> jsval) list"

definition orDefault :: "'a option \<Rightarrow> 'a \<Rightarrow> 'a" where
  "orDefault v d = (case v of None \<Rightarrow> d | Some x \<Rightarrow> x)"

definition clearFragmentArray :: "SqlFragment list \<Rightarrow> SqlFragment" where
  "clearFragmentArray fragment = (if length fragment = 0 then emptySql else Fragments fragment)"

text \<open>The statement \<^verbatim>\<open>findMany\<close> hands to the executor; \<^verbatim>\<open>limit\<close> is left out when it is falsy.\<close>

definition findManyStatement :: "nat \<Rightarrow> Model \<Rightarrow> FindManyArgs \<Rightarrow> (error + SqlFragment) option" where
  "findManyStatement depth m args =
     (case generateInclude m (orDefault (args_include args) []) of
        Inl e \<Rightarrow> Some (Inl e)
      | Inr (joinFragment, includeSelectFragment) \<Rightarrow>
          (case generateWhere m (orDefault (args_where args) []) (this_tableName m) True of
             Inl e \<Rightarrow> Some (Inl e)
           | Inr whereFragment \<Rightarrow>
               (case generateOrderBy depth m (JObj (orDefault (args_orderBy args) [])) of
                  None \<Rightarrow> None
                | Some (Inl e) \<Rightarrow> Some (Inl e)
                | Some (Inr orderFragment) \<Rightarrow>
                    Some (Inr (Template
                      [Text ''\<newline>      SELECT '',
                       generateSelect (orDefault (args_select args) []) (this_tableName m) None False
                         (length includeSelectFragment > 0),
                       Text '' '',
                       clearFragmentArray includeSelectFragment,
                       Text '' FROM '',
                       Identifier (this_tableName m),
                       Text ''\<newline>      '',
                       clearFragmentArray joinFragment,
                       Text ''\<newline>      '',
                       whereFragment,
                       Text ''\<newline>      '',
                       (case args_limit args of
                          None \<Rightarrow> emptySql
                        | Some n \<Rightarrow>
                            if n = 0 then emptySql
                            else Template [Text ''LIMIT '', Parameter (JNum n), Text '''']),
                       Text ''\<newline>      '',
                       orderFragment,
                       Text ''\<newline>    ''])))))"

definition findMany ::
  "nat \<Rightarrow> Model \<Rightarrow> executor \<Rightarrow> heap \<Rightarrow> FindManyArgs \<Rightarrow> (error + (addr list \<times> heap)) option" where
  "findMany depth m exec h args =
     (case findManyStatement depth m args of
        None \<Rightarrow> None
      | Some (Inl e) \<Rightarrow> Some (Inl e)
      | Some (Inr statement) \<Rightarrow>
          (case exec statement of
             Inl e \<Rightarrow> Some (Inl e)
           | Inr rows \<Rightarrow> Some (Inr (formatRows h rows))))"

text \<open>
  \<^verbatim>\<open>find\<close> (\<open>findOne\<close> here, \<open>find\<close> being a function on lists): the arguments spread into new
  ones with \<^verbatim>\<open>limit: 1\<close>; \<open>None\<close> in the result is \<^verbatim>\<open>null\<close>.
\<close>

definition withLimitOne :: "FindArgs \<Rightarrow> FindManyArgs" where
  "withLimitOne args =
     \<lparr>args_select = find_select args, args_where = find_where args,
      args_include = find_include args, args_limit = Some 1, args_orderBy = None\<rparr>"

definition findOne ::
  "nat \<Rightarrow> Model \<Rightarrow> executor \<Rightarrow> heap \<Rightarrow> FindArgs \<Rightarrow> (error + (addr option \<times> heap)) option" where
  "findOne depth m exec h args =
     (case findMany depth m exec h (withLimitOne args) of
        None \<Rightarrow> None
      | Some (Inl e) \<Rightarrow> Some (Inl e)
      | Some (Inr (data, h')) \<Rightarrow>
          Some (Inr (if length data = 1 then Some (data ! 0) else None, h')))"

definition createStatement :: "Model \<Rightarrow> CreateArgs \<Rightarrow> SqlFragment" where
  "createStatement m args =
     Template [Text ''\<newline>      INSERT INTO '',
               Identifier (this_tableName m),
               Text '' \<newline>      '',
               Helper (create_data args) (map fst (create_data args)),
               Text ''\<newline>      '',
               generateSelect (orDefault (create_select args) []) (this_tableName m) None True False,
               Text ''\<newline>    '']"

definition create :: "Model \<Rightarrow> executor \<Rightarrow> CreateArgs \<Rightarrow> error + addr" where
  "create m exec args =
     (case exec (createStatement m args) of
        Inl e \<Rightarrow> Inl e
      | Inr rows \<Rightarrow>
          if length rows = 1 then Inr (rows ! 0)
          else Inl (AssertionError ''expected to create a single row''))"

definition updateStatement :: "Model \<Rightarrow> UpdateArgs \<Rightarrow> error + SqlFragment" where
  "updateStatement m args =
     (case generateWhere m (update_where args) (this_tableName m) True of
        Inl e \<Rightarrow> Inl e
      | Inr whereFragment \<Rightarrow>
          Inr (Template [Text ''\<newline>      UPDATE '',
                         Identifier (this_tableName m),
                         Text '' SET '',
                         Helper (update_data args) (map fst (update_data args)),
                         Text ''\<newline>      '',
                         whereFragment,
                         Text ''\<newline>      '',
                         generateSelect (orDefault (update_select args) []) (this_tableName m) None True False,
                         Text ''\<newline>    '']))"

definition update :: "Model \<Rightarrow> executor \<Rightarrow> UpdateArgs \<Rightarrow> error + addr" where
  "update m exec args =
     (case updateStatement m args of
        Inl e \<Rightarrow> Inl e
      | Inr statement \<Rightarrow>
          (case exec statement of
             Inl e \<Rightarrow> Inl e
           | Inr rows \<Rightarrow>
               if length rows = 1 then Inr (rows ! 0)
               else Inl (AssertionError ''expected to update a single row'')))"

section \<open>The earlier model class of database/Model.ts\<close>

text \<open>
  The earlier variant builds the predicate as a string. Its \<^verbatim>\<open>map\<close> callback returns nothing for
  an \<^verbatim>\<open>undefined\<close> value, and \<^verbatim>\<open>join\<close> prints such an element as the empty string.
\<close>

definition operatorString :: "string \<Rightarrow> string \<Rightarrow> jsval \<Rightarrow> string option" where
  "operatorString selector operator targetValue =
     (if operator = ''eq'' then
        Some (if targetValue = JNull then selector @ '' IS NULL''
              else selector @ '' = '' @ [CHR 0x27] @ jsString targetValue @ [CHR 0x27])
      else if operator = ''neq'' then
        Some (if targetValue = JNull then selector @ '' IS NOT NULL''
              else selector @ '' != '' @ [CHR 0x27] @ jsString targetValue @ [CHR 0x27])
      else if operator = ''contains'' then
        Some (selector @ '' LIKE '' @ [CHR 0x27] @ ''%'' @ jsString targetValue @ ''%'' @ [CHR 0x27])
      else if operator = ''startsWith'' then
        Some (selector @ '' LIKE '' @ [CHR 0x27] @ jsString targetValue @ ''%'' @ [CHR 0x27])
      else if operator = ''endsWith'' then
        Some (selector @ '' LIKE '' @ [CHR 0x27] @ ''%'' @ jsString targetValue @ [CHR 0x27])
      else if operator = ''gt'' then Some (selector @ '' > '' @ jsString targetValue)
      else if operator = ''lt'' then Some (selector @ '' < '' @ jsString targetValue)
      else if operator = ''gte'' then Some (selector @ '' >= '' @ jsString targetValue)
      else if operator = ''lte'' then Some (selector @ '' >= '' @ jsString targetValue)
      else None)"

definition whereEntryString :: "string \<Rightarrow> string \<Rightarrow> jsval \<Rightarrow> error + string option" where
  "whereEntryString parentTable key operators =
     (let selector = parentTable @ ''.'' @ key;
          fallThrough = Inr (Some (selector @ '' = '' @ [CHR 0x27] @ jsString operators @ [CHR 0x27]))
      in case operators of
           JUndefined \<Rightarrow> Inr None
         | JNull \<Rightarrow> Inr (Some (selector @ '' IS NULL''))
         | JObj entries \<Rightarrow>
             (case entries of
                [] \<Rightarrow> Inl (TypeError ''undefined is not iterable'')
              | (operator, targetValue) # others \<Rightarrow>
                  (case operatorString selector operator targetValue of
                     Some clause \<Rightarrow> Inr (Some clause)
                   | None \<Rightarrow> fallThrough))
         | other \<Rightarrow> fallThrough)"

fun whereEntriesString :: "string \<Rightarrow> (string \<times> jsval) list \<Rightarrow> error + string option list" where
  "whereEntriesString parentTable [] = Inr []"
| "whereEntriesString parentTable ((key, operators) # rest) =
     (case whereEntryString parentTable key operators of
        Inl e \<Rightarrow> Inl e
      | Inr clause \<Rightarrow>
          (case whereEntriesString parentTable rest of
             Inl e \<Rightarrow> Inl e
           | Inr clauses \<Rightarrow> Inr (clause # clauses)))"

fun joinStrings :: "string \<Rightarrow> string option list \<Rightarrow> string" where
  "joinStrings sep [] = ''''"
| "joinStrings sep [x] = (case x of None \<Rightarrow> '''' | Some s \<Rightarrow> s)"
| "joinStrings sep (x # y # rest) =
     (case x of None \<Rightarrow> '''' | Some s \<Rightarrow> s) @ sep @ joinStrings sep (y # rest)"

definition generateWhereString :: "(string \<times> jsval) list \<Rightarrow> string \<Rightarrow> error + string" where
  "generateWhereString entries parentTable =
     (case whereEntriesString parentTable entries of
        Inl e \<Rightarrow> Inl e
      | Inr clauses \<Rightarrow> Inr (''WHERE '' @ joinStrings '' AND '' clauses))"

section \<open>An example schema\<close>

definition plainColumn :: "string \<Rightarrow> string \<Rightarrow> MockColumn" where
  "plainColumn n t =
     \<lparr>name = n, columnType = t, modifierPrimaryKey = False, modifierNotNull = False,
      modifierDefault = False, reference = None\<rparr>"

definition exampleDatabase :: MockDatabase where
  "exampleDatabase = \<lparr>tables =
     [(''user_'', \<lparr>table_name = ''user_'', columns =
         [(''id'', plainColumn ''id'' ''int''),
          (''username'', plainColumn ''username'' ''text''),
          (''age'', plainColumn ''age'' ''int''),
          (''avatar_id'', (plainColumn ''avatar_id'' ''int'')
             \<lparr>reference := Some \<lparr>tableName = ''avatar_'', columnName = ''id''\<rparr>\<rparr>)]\<rparr>),
      (''avatar_'', \<lparr>table_name = ''avatar_'', columns =
         [(''id'', plainColumn ''id'' ''int''),
          (''src'', plainColumn ''src'' ''text''),
          (''alt'', plainColumn ''alt'' ''text'')]\<rparr>),
      (''t'', \<lparr>table_name = ''t'', columns =
         [(''a'', plainColumn ''a'' ''int''),
          (''r'', (plainColumn ''r'' ''int'')
             \<lparr>reference := Some \<lparr>tableName = ''s'', columnName = ''id''\<rparr>\<rparr>)]\<rparr>),
      (''s'', \<lparr>table_name = ''s'', columns =
         [(''id'', plainColumn ''id'' ''int''),
          (''c'', plainColumn ''c'' ''int'')]\<rparr>)]\<rparr>"

definition userModel :: Model where
  "userModel = \<lparr>this_tableName = ''user_'', this_database = exampleDatabase\<rparr>"

definition tModel :: Model where
  "tModel = \<lparr>this_tableName = ''t'', this_database = exampleDatabase\<rparr>"

text \<open>The flat row \<open>{ a: 1, __r__c: 2 }\<close>, alone on the heap at address \<open>0\<close>.\<close>

definition flatRowHeap :: heap where
  "flatRowHeap = [[(''a'', RNum 1), (''__r__c'', RNum 2)]]"

section \<open>Tokens of the compiled fragments\<close>

lemma wordsOf_Nil [simp]: "wordsOf [] = []"
  by (simp add: wordsOf_def)

lemma sqlTokens_emptySql [simp]: "sqlTokens emptySql = []"
  by (simp add: emptySql_def)

lemma sqlTokens_joinFrom:
  "i + length fs = n \<Longrightarrow>
   concat (map sqlTokens (joinFrom i n sep fs)) = joinTokens (sqlTokens sep) (map sqlTokens fs)"
proof (induction fs arbitrary: i)
  case Nil
  then show ?case by simp
next
  case (Cons f fs)
  show ?case
  proof (cases fs)
    case Nil
    with Cons.prems have "i = n - 1" by auto
    with Nil show ?thesis by simp
  next
    case (Cons g gs)
    with Cons.prems have "i \<noteq> n - 1" by auto
    moreover have "Suc i + length fs = n" using Cons.prems by simp
    ultimately show ?thesis using Cons.IH [of "Suc i"] Cons by simp
  qed
qed

lemma sqlTokens_joinByFragment:
  "sqlTokens (joinByFragment fs sep) = joinTokens (sqlTokens sep) (map sqlTokens fs)"
  by (cases fs) (simp_all add: joinByFragment_def sqlTokens_joinFrom del: joinFrom.simps)

lemma filter_joinTokens_none:
  "filter P sep = [] \<Longrightarrow> \<forall>x \<in> set xs. filter P x = [] \<Longrightarrow> filter P (joinTokens sep xs) = []"
  by (induction sep xs rule: joinTokens.induct) simp_all

lemma countKw_joinByFragment_zero:
  "countKw w sep = 0 \<Longrightarrow> \<forall>f \<in> set fs. countKw w f = 0 \<Longrightarrow> countKw w (joinByFragment fs sep) = 0"
  by (simp add: countKw_def sqlTokens_joinByFragment filter_joinTokens_none)

lemma countKw_operatorFragment:
  "operatorFragment selector operator targetValue = Some fragment \<Longrightarrow>
   countKw ''WHERE'' fragment = countKw ''WHERE'' selector"
  by (auto simp: operatorFragment_def countKw_def wordsOf_def isSpace_def split: if_splits)

lemma countKw_createIdentifier [simp]: "countKw w (createIdentifier c t) = 0"
  by (simp add: countKw_def createIdentifier_def)

section \<open>The example schema\<close>

lemmas example_defs =
  findReference_def userModel_def tModel_def exampleDatabase_def getTable_def getColumn_def
  plainColumn_def quoted_def

lemma findReference_age:
  "findReference userModel ''age'' ''user_'' =
     Inl (AssertionError (''expected column '' @ quoted ''age'' @ '' in table '' @ quoted ''user_''
            @ '' to have a reference''))"
  by (simp add: example_defs)

lemma findReference_avatar_id:
  "findReference userModel ''avatar_id'' (this_tableName userModel) =
     Inr ((plainColumn ''avatar_id'' ''int'')
            \<lparr>reference := Some \<lparr>tableName = ''avatar_'', columnName = ''id''\<rparr>\<rparr>)"
  by (simp add: example_defs)

lemma findReference_user_0:
  "findReference userModel ''0'' (this_tableName userModel) =
     Inl (AssertionError (''expected to find column '' @ quoted ''0'' @ '' in table '' @ quoted ''user_''))"
  by (simp add: example_defs)

section \<open>The predicate compiler\<close>

text \<open>
  C1. An operator object whose honored (first) entry is \<open>lte\<close>, on a key that is not a
  relationship column, should compile to the comparison \<open><=\<close> against the raw value. Both
  variants of the predicate compiler emit \<open>>=\<close> instead, exactly what they emit for \<open>gte\<close>.
\<close>

theorem lte_emits_greater_equal:
  assumes "findReference m key parentTable = Inl e"
  shows "generateWhereObject m key (JObj ((''lte'', v) # others)) parentTable =
           Inr (Template [Text '''', Identifier (parentTable @ ''.'' @ key), Text '' >= '',
                          Parameter v, Text ''''])
       \<and> generateWhereObject m key (JObj ((''lte'', v) # others)) parentTable =
           generateWhereObject m key (JObj ((''gte'', v) # others)) parentTable
       \<and> whereEntryString parentTable key (JObj ((''lte'', v) # others)) =
           Inr (Some (parentTable @ ''.'' @ key @ '' >= '' @ jsString v))"
  using assms
  by (simp add: operatorFragment_def createIdentifier_def whereEntryString_def operatorString_def)

theorem lte_emits_greater_equal_witness:
  "generateWhereObject userModel ''age'' (JObj [(''lte'', JNum 5)]) ''user_'' =
     Inr (Template [Text '''', Identifier ''user_.age'', Text '' >= '', Parameter (JNum 5), Text ''''])
   \<and> whereEntryString ''user_'' ''age'' (JObj [(''lte'', JNum 5)]) = Inr (Some ''user_.age >= 5'')"
  using lte_emits_greater_equal [OF findReference_age, of "JNum 5" "[]"]
  by (simp add: intToString_def natToString.simps)

text \<open>
  C3. A key of a filter description whose value is \<open>undefined\<close> should be skipped, leaving no
  clause. The predicate compiler of \<^verbatim>\<open>MockDatabase.ts\<close> has no case for \<open>undefined\<close>: the value
  falls through to the last \<^verbatim>\<open>return\<close>, which compares the column with the string
  \<open>undefined\<close>, and the one fragment makes \<^verbatim>\<open>generateWhere\<close> emit the keyword \<open>WHERE\<close>. The
  earlier compiler of \<^verbatim>\<open>database/Model.ts\<close> returns no clause for such a key.
\<close>

theorem undefined_value_compiles_to_clause:
  "generateWhereObject m key JUndefined parentTable =
     Inr (Template [Text '''', Identifier (parentTable @ ''.'' @ key), Text '' = '',
                    Parameter (JStr ''undefined''), Text ''''])
   \<and> map_sum id sqlTokens (generateWhere m [(key, JUndefined)] parentTable True) =
       Inr [Kw ''WHERE'', Id (parentTable @ ''.'' @ key), Kw ''='', Par (JStr ''undefined'')]
   \<and> whereEntryString parentTable key JUndefined = Inr None"
  by (simp add: createIdentifier_def joinByFragment_def wordsOf_def isSpace_def emptySql_def
      whereEntryString_def)

lemma where_keyword_count:
  "(\<forall>f. generateWhereObject m key operators parentTable = Inr f \<longrightarrow> countKw ''WHERE'' f = 0)"
  "(\<forall>f. generateWhere m entries parentTable' includeWhere = Inr f \<longrightarrow>
        countKw ''WHERE'' f = (if includeWhere \<and> entries \<noteq> [] then 1 else 0))"
  "(\<forall>fs. whereFragments m entries' parentTable'' = Inr fs \<longrightarrow>
        length fs = length entries' \<and> (\<forall>f \<in> set fs. countKw ''WHERE'' f = 0))"
proof (induction m key operators parentTable and m entries parentTable' includeWhere
         and m entries' parentTable''
       rule: generateWhereObject_generateWhere_whereFragments.induct)
  case (1 m key operators parentTable)
  show ?case
  proof (intro allI impI)
    fix f assume a: "generateWhereObject m key operators parentTable = Inr f"
    show "countKw ''WHERE'' f = 0"
    proof (cases operators)
      case (JObj entries)
      show ?thesis
      proof (cases "findReference m key parentTable")
        case (Inr column)
        then show ?thesis using a JObj 1
          by (cases "reference column") auto
      next
        case (Inl caught)
        show ?thesis
        proof (cases entries)
          case Nil
          with a JObj Inl show ?thesis by simp
        next
          case (Cons entry others)
          obtain operator targetValue where entry: "entry = (operator, targetValue)"
            by (cases entry)
          show ?thesis
          proof (cases "operatorFragment (createIdentifier key parentTable) operator targetValue")
            case None
            with a JObj Inl Cons entry show ?thesis
              by (auto simp: countKw_def wordsOf_def isSpace_def createIdentifier_def)
          next
            case (Some fragment)
            with a JObj Inl Cons entry have "f = fragment" by simp
            with countKw_operatorFragment [OF Some] show ?thesis by simp
          qed
        qed
      qed
    qed (use a in \<open>auto simp: countKw_def wordsOf_def isSpace_def createIdentifier_def\<close>)
  qed
next
  case (2 m entries parentTable includeWhere)
  show ?case
  proof (intro allI impI)
    fix f assume a: "generateWhere m entries parentTable includeWhere = Inr f"
    then obtain fs where fs: "whereFragments m entries parentTable = Inr fs"
      and f: "f = Template [Text [],
                 (if includeWhere \<and> length fs > 0 then Template [Text ''WHERE''] else emptySql),
                 Text '' '', joinByFragment fs (Template [Text '' AND '']), Text []]"
      by (auto split: sum.splits)
    from 2 fs have len: "length fs = length entries"
      and zero: "\<forall>f \<in> set fs. countKw ''WHERE'' f = 0"
      by auto
    have "countKw ''WHERE'' (joinByFragment fs (Template [Text '' AND ''])) = 0"
      by (rule countKw_joinByFragment_zero [OF _ zero]) (simp add: countKw_def wordsOf_def isSpace_def)
    then show "countKw ''WHERE'' f = (if includeWhere \<and> entries \<noteq> [] then 1 else 0)"
      using len by (auto simp: f countKw_def wordsOf_def isSpace_def)
  qed
next
  case (3 m parentTable)
  then show ?case by simp
next
  case (4 m key operators rest parentTable)
  then show ?case by (auto split: sum.splits)
qed

text \<open>
  C4, as amended. Whatever the nesting of relationship keys, a filter that compiles has at
  most one \<open>WHERE\<close> keyword among its tokens: exactly one when the call asks for the keyword
  (the outermost call does) and the filter has at least one entry, and none when the filter
  is empty or the call is a recursive one (which passes \<open>includeWhere = false\<close>). Keywords
  are the words of the literal template texts; identifiers and interpolated values are not
  counted.
\<close>

theorem where_keyword_once_unless_empty:
  assumes "generateWhere m entries parentTable includeWhere = Inr f"
  shows "countKw ''WHERE'' f = (if includeWhere \<and> entries \<noteq> [] then 1 else 0)"
  using assms where_keyword_count(2) by blast

theorem where_keyword_once_unless_empty_witness:
  "map_sum id sqlTokens
     (generateWhere userModel
        [(''avatar_id'', JObj [(''src'', JObj [(''contains'', JStr ''png'')])]),
         (''username'', JStr ''ann'')] ''user_'' True)
     = Inr [Kw ''WHERE'', Id ''avatar_.src'', Kw ''LIKE'', Kw ([CHR 0x27] @ ''%''), Par (JStr ''png''),
            Kw (''%'' @ [CHR 0x27]), Kw ''AND'', Id ''user_.username'', Kw ''='', Par (JStr ''ann'')]
   \<and> map_sum id (countKw ''WHERE'')
       (generateWhere userModel
          [(''avatar_id'', JObj [(''src'', JObj [(''contains'', JStr ''png'')])]),
           (''username'', JStr ''ann'')] ''user_'' True)
     = Inr 1"
proof -
  obtain f where g: "generateWhere userModel
             [(''avatar_id'', JObj [(''src'', JObj [(''contains'', JStr ''png'')])]),
              (''username'', JStr ''ann'')] ''user_'' True = Inr f"
    and t: "sqlTokens f =
             [Kw ''WHERE'', Id ''avatar_.src'', Kw ''LIKE'', Kw ([CHR 0x27] @ ''%''), Par (JStr ''png''),
              Kw (''%'' @ [CHR 0x27]), Kw ''AND'', Id ''user_.username'', Kw ''='', Par (JStr ''ann'')]"
    by (simp add: example_defs operatorFragment_def createIdentifier_def joinByFragment_def
        wordsOf_def isSpace_def)
  from where_keyword_once_unless_empty [OF g] t show ?thesis unfolding g by simp
qed

text \<open>
  The claim C4 as stated fails on the empty filter, the default of \<^verbatim>\<open>findMany\<close>: the keyword is
  emitted only when there is a fragment to follow it, so there is no \<open>WHERE\<close> token at all.
\<close>

theorem empty_filter_has_no_where_keyword:
  "map_sum id (countKw ''WHERE'') (generateWhere userModel [] ''user_'' True) = Inr 0"
  by (simp add: countKw_def joinByFragment_def wordsOf_def isSpace_def emptySql_def)

section \<open>The relation resolver\<close>

text \<open>
  C2. An include entry whose value is \<open>true\<close> should contribute select fragments covering
  every column of the referenced table, and a sub-mapping aliased select fragments for the
  listed columns. For a key that is a relationship column, the resolver emits the \<open>JOIN\<close> in
  both cases, but for \<open>true\<close> it contributes no select fragment at all; a sub-mapping
  contributes one fragment, the select compiler's for the listed columns under the alias
  prefix of the key.
\<close>

theorem include_true_contributes_no_select:
  assumes "findReference m k (this_tableName m) = Inr column"
    and "reference column = Some r"
  shows "generateInclude m [(k, JBool True)] =
           Inr ([Template [Text ''JOIN '', Identifier (tableName r), Text '' ON '',
                           createIdentifier (name column) (this_tableName m), Text '' = '',
                           createIdentifier (columnName r) (tableName r), Text '''']],
                [])
       \<and> generateInclude m [(k, JObj cols)] =
           Inr ([Template [Text ''JOIN '', Identifier (tableName r), Text '' ON '',
                           createIdentifier (name column) (this_tableName m), Text '' = '',
                           createIdentifier (columnName r) (tableName r), Text '''']],
                [generateSelect (map fst cols) (tableName r) (Some k) False False])"
  using assms by (simp add: generateInclude_def objectKeys_def)

theorem include_true_contributes_no_select_witness:
  "map_sum id (\<lambda>(joins, selects). (map sqlTokens joins, map sqlTokens selects))
     (generateInclude userModel [(''avatar_id'', JBool True)])
     = Inr ([[Kw ''JOIN'', Id ''avatar_'', Kw ''ON'', Id ''user_.avatar_id'', Kw ''='', Id ''avatar_.id'']],
            [])
   \<and> map_sum id (\<lambda>(joins, selects). (map sqlTokens joins, map sqlTokens selects))
     (generateInclude userModel [(''avatar_id'', JObj [(''src'', JBool True), (''alt'', JBool True)])])
     = Inr ([[Kw ''JOIN'', Id ''avatar_'', Kw ''ON'', Id ''user_.avatar_id'', Kw ''='', Id ''avatar_.id'']],
            [[Id ''avatar_.src'', Kw ''AS'', Id ''__avatar_id__src'', Kw '','',
              Id ''avatar_.alt'', Kw ''AS'', Id ''__avatar_id__alt'']])"
  using include_true_contributes_no_select [OF findReference_avatar_id,
      of "\<lparr>tableName = ''avatar_'', columnName = ''id''\<rparr>"
         "[(''src'', JBool True), (''alt'', JBool True)]"]
  by (simp add: plainColumn_def createIdentifier_def userModel_def generateSelect_def
      selectColumn_def joinByFragment_def wordsOf_def isSpace_def emptySql_def)

section \<open>The order compiler\<close>

lemma natToString_0: "natToString 0 = ''0''"
  by (simp add: natToString.simps)

lemma entriesDepth_member: "(k, v) \<in> set kvs \<Longrightarrow> jsDepth v \<le> entriesDepth kvs"
  by (induction kvs) auto

lemma orderByLoop_returns:
  assumes "\<forall>(k, v) \<in> set entries. \<forall>t. \<exists>r. generateOrderByObject depth m v t = Some r"
  shows "\<exists>r. orderByLoop depth m entries parentTable ascFragment descFragment = Some r"
  using assms
proof (induction entries arbitrary: ascFragment descFragment)
  case Nil
  then show ?case by simp
next
  case (Cons entry rest)
  obtain k v where entry: "entry = (k, v)" by (cases entry)
  have rest: "\<And>a d. \<exists>r. orderByLoop depth m rest parentTable a d = Some r"
    using Cons by simp
  show ?case
  proof (cases "findReference m k (this_tableName m)")
    case (Inl caught)
    then show ?thesis using rest by (simp add: entry Let_def)
  next
    case found: (Inr column)
    show ?thesis
    proof (cases "reference column")
      case None
      then show ?thesis using rest found by (simp add: entry Let_def)
    next
      case (Some r)
      from Cons.prems have "\<forall>t. \<exists>res. generateOrderByObject depth m v t = Some res"
        by (simp add: entry)
      then obtain res where res: "generateOrderByObject depth m v (tableName r) = Some res"
        by blast
      show ?thesis
      proof (cases res)
        case (Inl e)
        then show ?thesis using found Some res by (simp add: entry Let_def)
      next
        case (Inr ad)
        obtain a d where "ad = (a, d)" by (cases ad)
        then show ?thesis using found Some res Inr rest by (simp add: entry Let_def)
      qed
    qed
  qed
qed

lemma single_character_returns:
  assumes "findReference m ''0'' (this_tableName m) = Inl e"
  shows "generateOrderByObject (Suc depth) m (JStr [c]) t = Some (Inr ([], []))"
  using assms by (simp add: natToString_0 Let_def)

lemma stringEntries_values: "(k, v) \<in> set (stringEntries i s) \<Longrightarrow> \<exists>c. v = JStr [c]"
  by (induction i s rule: stringEntries.induct) auto

lemma generateOrderByObject_returns:
  assumes zero: "findReference m ''0'' (this_tableName m) = Inl e"
  shows "jsDepth orderBy \<le> depth \<Longrightarrow> \<exists>r. generateOrderByObject depth m orderBy t = Some r"
proof (induction depth arbitrary: orderBy t)
  case 0
  then show ?case by (cases orderBy) simp_all
next
  case (Suc depth)
  show ?case
  proof (cases orderBy)
    case (JObj kvs)
    have "\<forall>(k, v) \<in> set kvs. \<forall>t. \<exists>r. generateOrderByObject depth m v t = Some r"
    proof (clarify)
      fix k v t' assume "(k, v) \<in> set kvs"
      then have "jsDepth v \<le> entriesDepth kvs" by (rule entriesDepth_member)
      with Suc.prems JObj have "jsDepth v \<le> depth" by simp
      then show "\<exists>r. generateOrderByObject depth m v t' = Some r" by (rule Suc.IH)
    qed
    then show ?thesis using JObj by (simp add: orderByLoop_returns)
  next
    case (JStr s)
    with Suc.prems obtain d where d: "depth = Suc d" by (cases depth) simp_all
    have "\<forall>(k, v) \<in> set (stringEntries 0 s). \<forall>t. \<exists>r. generateOrderByObject depth m v t = Some r"
      using single_character_returns [OF zero] d by (auto dest!: stringEntries_values)
    then show ?thesis using JStr by (simp add: orderByLoop_returns)
  qed simp_all
qed

lemma orderByFragment_tokens:
  "sqlTokens (orderByFragment asc desc) =
     (if asc \<noteq> [] then
        [Kw ''ORDER'', Kw ''BY''] @ joinTokens [Kw '',''] (map sqlTokens asc) @ [Kw ''ASC'']
          @ (if desc \<noteq> [] then [Kw '',''] @ joinTokens [Kw '',''] (map sqlTokens desc) @ [Kw ''DESC'']
             else [])
      else if desc \<noteq> [] then
        [Kw ''ORDER'', Kw ''BY''] @ joinTokens [Kw '',''] (map sqlTokens desc) @ [Kw ''DESC'']
      else [])"
  by (simp add: orderByFragment_def sqlTokens_joinByFragment wordsOf_def isSpace_def)

text \<open>
  C7. When the order description yields the ascending fragments \<open>asc\<close> and the descending
  fragments \<open>desc\<close>, the compiled fragment reads \<open>ORDER BY <asc-list> ASC\<close> when \<open>asc\<close> is not
  empty, followed by \<open>, <desc-list> DESC\<close> when \<open>desc\<close> is not empty either; \<open>ORDER BY
  <desc-list> DESC\<close> when only \<open>desc\<close> is not empty; and nothing when both are empty. The lists
  are comma-separated. The compiler does return on every order description, given a call
  depth beyond the nesting of the description, unless the model's table has a relationship
  column named \<open>0\<close>.
\<close>

theorem order_by_fragment_shape:
  "(generateOrderByObject depth m orderBy (this_tableName m) = Some (Inr (asc, desc)) \<longrightarrow>
      (\<exists>f. generateOrderBy depth m orderBy = Some (Inr f)
         \<and> sqlTokens f =
             (if asc \<noteq> [] then
                [Kw ''ORDER'', Kw ''BY''] @ joinTokens [Kw '',''] (map sqlTokens asc) @ [Kw ''ASC'']
                  @ (if desc \<noteq> []
                     then [Kw '',''] @ joinTokens [Kw '',''] (map sqlTokens desc) @ [Kw ''DESC'']
                     else [])
              else if desc \<noteq> [] then
                [Kw ''ORDER'', Kw ''BY''] @ joinTokens [Kw '',''] (map sqlTokens desc) @ [Kw ''DESC'']
              else [])))
   \<and> (findReference m ''0'' (this_tableName m) = Inl e \<and> jsDepth orderBy \<le> depth \<longrightarrow>
        (\<exists>r. generateOrderByObject depth m orderBy (this_tableName m) = Some r
            \<and> generateOrderBy depth m orderBy = Some (map_sum id (\<lambda>(a, d). orderByFragment a d) r)))"
proof (intro conjI impI)
  assume "generateOrderByObject depth m orderBy (this_tableName m) = Some (Inr (asc, desc))"
  then have "generateOrderBy depth m orderBy = Some (Inr (orderByFragment asc desc))"
    by (simp add: generateOrderBy_def)
  then show "\<exists>f. generateOrderBy depth m orderBy = Some (Inr f)
         \<and> sqlTokens f =
             (if asc \<noteq> [] then
                [Kw ''ORDER'', Kw ''BY''] @ joinTokens [Kw '',''] (map sqlTokens asc) @ [Kw ''ASC'']
                  @ (if desc \<noteq> []
                     then [Kw '',''] @ joinTokens [Kw '',''] (map sqlTokens desc) @ [Kw ''DESC'']
                     else [])
              else if desc \<noteq> [] then
                [Kw ''ORDER'', Kw ''BY''] @ joinTokens [Kw '',''] (map sqlTokens desc) @ [Kw ''DESC'']
              else [])"
    using orderByFragment_tokens by blast
next
  assume "findReference m ''0'' (this_tableName m) = Inl e \<and> jsDepth orderBy \<le> depth"
  then obtain r where r: "generateOrderByObject depth m orderBy (this_tableName m) = Some r"
    using generateOrderByObject_returns by blast
  then have "generateOrderBy depth m orderBy = Some (map_sum id (\<lambda>(a, d). orderByFragment a d) r)"
    by (cases r) (auto simp: generateOrderBy_def)
  with r show "\<exists>r. generateOrderByObject depth m orderBy (this_tableName m) = Some r
            \<and> generateOrderBy depth m orderBy = Some (map_sum id (\<lambda>(a, d). orderByFragment a d) r)"
    by blast
qed

lemma orderBy_example:
  "generateOrderByObject (Suc (Suc (Suc 0))) userModel
     (JObj [(''id'', JStr ''ASC''),
            (''avatar_id'', JObj [(''src'', JStr ''DESC''), (''alt'', JStr ''ASC'')]),
            (''age'', JStr ''DESC'')])
     (this_tableName userModel)
   = Some (Inr ([Template [Text '''', Identifier ''user_.id'', Text ''''],
                 Template [Text '''', Identifier ''avatar_.alt'', Text '''']],
                [Template [Text '''', Identifier ''avatar_.src'', Text ''''],
                 Template [Text '''', Identifier ''user_.age'', Text '''']]))"
  by (simp add: example_defs createIdentifier_def Let_def)

theorem order_by_fragment_shape_witness:
  "map_option (map_sum id sqlTokens)
     (generateOrderBy (Suc (Suc (Suc 0))) userModel
        (JObj [(''id'', JStr ''ASC''),
               (''avatar_id'', JObj [(''src'', JStr ''DESC''), (''alt'', JStr ''ASC'')]),
               (''age'', JStr ''DESC'')]))
   = Some (Inr [Kw ''ORDER'', Kw ''BY'', Id ''user_.id'', Kw '','', Id ''avatar_.alt'', Kw ''ASC'',
                Kw '','', Id ''avatar_.src'', Kw '','', Id ''user_.age'', Kw ''DESC''])
   \<and> jsDepth (JObj [(''id'', JStr ''ASC''),
               (''avatar_id'', JObj [(''src'', JStr ''DESC''), (''alt'', JStr ''ASC'')]),
               (''age'', JStr ''DESC'')]) \<le> Suc (Suc (Suc (Suc 0)))
   \<and> (\<exists>r. generateOrderByObject (Suc (Suc (Suc (Suc 0)))) userModel
        (JObj [(''id'', JStr ''ASC''),
               (''avatar_id'', JObj [(''src'', JStr ''DESC''), (''alt'', JStr ''ASC'')]),
               (''age'', JStr ''DESC'')]) (this_tableName userModel) = Some r)"
proof -
  let ?o = "JObj [(''id'', JStr ''ASC''),
               (''avatar_id'', JObj [(''src'', JStr ''DESC''), (''alt'', JStr ''ASC'')]),
               (''age'', JStr ''DESC'')]"
  let ?asc = "[Template [Text '''', Identifier ''user_.id'', Text ''''],
               Template [Text '''', Identifier ''avatar_.alt'', Text '''']]"
  let ?desc = "[Template [Text '''', Identifier ''avatar_.src'', Text ''''],
                Template [Text '''', Identifier ''user_.age'', Text '''']]"
  have d: "jsDepth ?o \<le> Suc (Suc (Suc (Suc 0)))" by simp
  from order_by_fragment_shape [of "Suc (Suc (Suc 0))" userModel ?o ?asc ?desc,
      THEN conjunct1, THEN mp, OF orderBy_example]
  obtain f where f: "generateOrderBy (Suc (Suc (Suc 0))) userModel ?o = Some (Inr f)"
    and t: "sqlTokens f =
             [Kw ''ORDER'', Kw ''BY''] @ joinTokens [Kw '',''] (map sqlTokens ?asc) @ [Kw ''ASC'']
               @ [Kw '',''] @ joinTokens [Kw '',''] (map sqlTokens ?desc) @ [Kw ''DESC'']"
    by auto
  from t have t': "sqlTokens f =
      [Kw ''ORDER'', Kw ''BY'', Id ''user_.id'', Kw '','', Id ''avatar_.alt'', Kw ''ASC'',
       Kw '','', Id ''avatar_.src'', Kw '','', Id ''user_.age'', Kw ''DESC'']"
    by simp
  from order_by_fragment_shape [of "Suc (Suc (Suc (Suc 0)))" userModel ?o,
      THEN conjunct2, THEN mp, OF conjI [OF findReference_user_0 d]]
  have r: "\<exists>r. generateOrderByObject (Suc (Suc (Suc (Suc 0)))) userModel ?o (this_tableName userModel)
             = Some r"
    by blast
  show ?thesis unfolding f using t' d r by simp
qed

section \<open>The row reshaper\<close>

lemma formatKeys_noop:
  "\<forall>k \<in> set keys. \<not> startsWithDunder k \<Longrightarrow> formatKeys row keys g = g"
  by (induction keys arbitrary: g) simp_all

lemma props_append_length [simp]: "props (h @ [obj]) (length h) = obj"
  by (simp add: props_def)

lemma formatRow_plain:
  assumes "\<forall>k \<in> set (map fst (props h rowSource)). \<not> startsWithDunder k"
  shows "formatRow h rowSource = (length h, h @ [props h rowSource])"
  using assms by (simp add: formatRow_def Let_def formatKeys_noop)

lemma formatKey_length: "length (formatKey row key g) = Suc (length g)"
  by (simp add: formatKey_def Let_def)

lemma formatKey_take:
  "n \<le> row \<Longrightarrow> n \<le> length g \<Longrightarrow> take n (formatKey row key g) = take n g"
  by (simp add: formatKey_def Let_def)

lemma formatKeys_length: "length g \<le> length (formatKeys row keys g)"
proof (induction keys arbitrary: g)
  case Nil
  then show ?case by simp
next
  case (Cons key keys)
  show ?case
  proof (cases "startsWithDunder key")
    case True
    have "length g \<le> length (formatKey row key g)" by (simp add: formatKey_length)
    also have "\<dots> \<le> length (formatKeys row keys (formatKey row key g))" by (rule Cons.IH)
    finally show ?thesis using True by simp
  next
    case False
    then show ?thesis using Cons.IH [of g] by simp
  qed
qed

lemma formatKeys_take:
  "n \<le> row \<Longrightarrow> n \<le> length g \<Longrightarrow> take n (formatKeys row keys g) = take n g"
proof (induction keys arbitrary: g)
  case Nil
  then show ?case by simp
next
  case (Cons key keys)
  show ?case
  proof (cases "startsWithDunder key")
    case True
    have "n \<le> length (formatKey row key g)" using Cons.prems by (simp add: formatKey_length)
    with Cons.IH [of "formatKey row key g"] Cons.prems True show ?thesis
      by (simp add: formatKey_take)
  next
    case False
    then show ?thesis using Cons by simp
  qed
qed

lemma formatRow_frame:
  assumes "formatRow h rowSource = (row, h')"
  shows "row = length h \<and> length h < length h' \<and> take (length h) h' = h"
proof -
  let ?h1 = "h @ [props h rowSource]"
  let ?keys = "map fst (props ?h1 (length h))"
  from assms have row: "row = length h" and h': "h' = formatKeys (length h) ?keys ?h1"
    by (auto simp: formatRow_def Let_def)
  have "length ?h1 \<le> length h'" unfolding h' by (rule formatKeys_length)
  moreover have "take (length h) h' = take (length h) ?h1"
    unfolding h' by (rule formatKeys_take) simp_all
  ultimately show ?thesis using row by simp
qed

lemma formatRows_frame:
  "formatRows h rows = (rows', h') \<Longrightarrow>
     length rows' = length rows \<and> length h \<le> length h' \<and> take (length h) h' = h"
proof (induction rows arbitrary: h rows' h')
  case Nil
  then show ?case by simp
next
  case (Cons r rs)
  obtain r1 h1 where one: "formatRow h r = (r1, h1)" by (cases "formatRow h r")
  obtain rs2 h2 where rest: "formatRows h1 rs = (rs2, h2)" by (cases "formatRows h1 rs")
  from Cons.prems one rest have eq: "rows' = r1 # rs2" "h' = h2" by simp_all
  from formatRow_frame [OF one] have f1: "length h < length h1" "take (length h) h1 = h"
    by simp_all
  from Cons.IH [OF rest]
  have f2: "length rs2 = length rs" "length h1 \<le> length h2" "take (length h1) h2 = h1"
    by simp_all
  have "take (length h) h2 = take (length h) (take (length h1) h2)"
    using f1(1) by (simp add: min_def)
  with f1 f2 eq show ?case by simp
qed

lemma hasDunder_append_left: "hasDunder xs \<Longrightarrow> hasDunder (xs @ ys)"
  by (induction xs rule: hasDunder.induct) auto

lemma hasDunder_append_right: "hasDunder ys \<Longrightarrow> hasDunder (xs @ ys)"
proof (induction xs)
  case Nil
  then show ?case by simp
next
  case (Cons x xs)
  then show ?case by (cases "xs @ ys") auto
qed

lemma hasDunder_snoc:
  "hasDunder (xs @ [c]) \<longleftrightarrow> hasDunder xs \<or> (xs \<noteq> [] \<and> last xs = CHR ''_'' \<and> c = CHR ''_'')"
  by (induction xs rule: hasDunder.induct) auto

lemma splitDunder_parts:
  "\<not> hasDunder part \<Longrightarrow>
   (part \<noteq> [] \<and> last part = CHR ''_'' \<longrightarrow> s = [] \<or> hd s \<noteq> CHR ''_'') \<Longrightarrow>
   \<forall>p \<in> set (splitDunder part s). \<not> hasDunder p"
proof (induction part s rule: splitDunder.induct)
  case (1 part)
  then show ?case by simp
next
  case (2 part c)
  then show ?case by (auto simp: hasDunder_snoc)
next
  case (3 part c d cs)
  show ?case
  proof (cases "c = CHR ''_'' \<and> d = CHR ''_''")
    case True
    have "\<forall>p \<in> set (splitDunder [] cs). \<not> hasDunder p"
      by (rule "3.IH"(1) [OF True]) simp_all
    with True "3.prems"(1) show ?thesis by simp
  next
    case False
    have a: "\<not> hasDunder (part @ [c])" using "3.prems" by (auto simp: hasDunder_snoc)
    have b: "part @ [c] \<noteq> [] \<and> last (part @ [c]) = CHR ''_''
               \<longrightarrow> d # cs = [] \<or> hd (d # cs) \<noteq> CHR ''_''"
      using False by auto
    from "3.IH"(2) [OF False a b] show ?thesis by (simp add: False)
  qed
qed

lemma hasDunder_trim: "\<not> hasDunder s \<Longrightarrow> \<not> hasDunder (trim s)"
proof -
  assume a: "\<not> hasDunder s"
  let ?t = "dropWhile isSpace s"
  have "s = takeWhile isSpace s @ ?t" by simp
  with a have b: "\<not> hasDunder ?t" by (metis hasDunder_append_right)
  have "rev ?t = takeWhile isSpace (rev ?t) @ dropWhile isSpace (rev ?t)" by simp
  then have "?t = rev (dropWhile isSpace (rev ?t)) @ rev (takeWhile isSpace (rev ?t))"
    by (metis rev_append rev_rev_ident)
  with b have "\<not> hasDunder (rev (dropWhile isSpace (rev ?t)))" by (metis hasDunder_append_left)
  then show ?thesis by (simp add: trim_def)
qed

lemma startsWithDunder_hasDunder: "startsWithDunder s \<Longrightarrow> hasDunder s"
  by (cases s rule: hasDunder.cases) (auto simp: startsWithDunder_def)

lemma keyParts_plain: "p \<in> set (keyParts key) \<Longrightarrow> \<not> startsWithDunder p"
proof -
  assume "p \<in> set (keyParts key)"
  then obtain q where q: "q \<in> set (splitDunder [] key)" and p: "p = trim q"
    by (auto simp: keyParts_def)
  have "\<forall>p \<in> set (splitDunder [] key). \<not> hasDunder p"
    by (rule splitDunder_parts) simp_all
  with q have "\<not> hasDunder q" by blast
  then have "\<not> hasDunder p" unfolding p by (rule hasDunder_trim)
  then show ?thesis using startsWithDunder_hasDunder by blast
qed

lemma referenceColumnName_plain:
  "\<not> startsWithDunder (case keyParts key of [] \<Rightarrow> ''undefined'' | p # ps \<Rightarrow> p)"
proof (cases "keyParts key")
  case Nil
  then show ?thesis by (simp add: startsWithDunder_def)
next
  case (Cons p ps)
  then have "p \<in> set (keyParts key)" by simp
  then have "\<not> startsWithDunder p" by (rule keyParts_plain)
  then show ?thesis using Cons by simp
qed

lemma keys_deleteProp: "fst ` set (deleteProp obj k) = fst ` set obj - {k}"
  by (auto simp: deleteProp_def)

lemma keys_insertIndex: "fst ` set (insertIndex k v obj) = insert k (fst ` set obj)"
  by (induction k v obj rule: insertIndex.induct) (simp_all add: insert_commute)

lemma keys_overwrite: "map fst (map (\<lambda>kv. if fst kv = k then (k, v) else kv) obj) = map fst obj"
  by (induction obj) simp_all

lemma keys_setProp: "fst ` set (setProp obj k v) = insert k (fst ` set obj)"
proof (cases "k \<in> set (map fst obj)")
  case True
  have "fst ` set (map (\<lambda>kv. if fst kv = k then (k, v) else kv) obj)
          = set (map fst (map (\<lambda>kv. if fst kv = k then (k, v) else kv) obj))"
    by (simp only: set_map)
  also have "\<dots> = set (map fst obj)" by (simp only: keys_overwrite)
  finally show ?thesis using True by (auto simp: setProp_def)
next
  case False
  then show ?thesis by (simp add: setProp_def keys_insertIndex)
qed

lemma formatKey_keys:
  assumes "row < length g"
  shows "fst ` set (props (formatKey row key g) row) =
           insert (case keyParts key of [] \<Rightarrow> ''undefined'' | p # ps \<Rightarrow> p)
             (fst ` set (props g row) - {key})"
  using assms
  by (simp add: formatKey_def Let_def keys_setProp keys_deleteProp props_def nth_append)

lemma formatKeys_keys:
  "row < length g \<Longrightarrow>
   {k \<in> fst ` set (props (formatKeys row keys g) row). startsWithDunder k}
     \<subseteq> {k \<in> fst ` set (props g row). startsWithDunder k} - set keys"
proof (induction keys arbitrary: g)
  case Nil
  then show ?case by simp
next
  case (Cons key keys)
  show ?case
  proof (cases "startsWithDunder key")
    case True
    have len: "row < length (formatKey row key g)" using Cons.prems by (simp add: formatKey_length)
    have "{k \<in> fst ` set (props (formatKey row key g) row). startsWithDunder k}
            \<subseteq> {k \<in> fst ` set (props g row). startsWithDunder k} - {key}"
      using referenceColumnName_plain [of key] by (auto simp: formatKey_keys [OF Cons.prems])
    with Cons.IH [OF len] True show ?thesis by auto
  next
    case False
    with Cons.IH [OF Cons.prems] show ?thesis by auto
  qed
qed

lemma formatRow_result_plain:
  assumes "formatRow h rowSource = (row, h')"
  shows "\<forall>k \<in> set (map fst (props h' row)). \<not> startsWithDunder k"
proof -
  let ?h1 = "h @ [props h rowSource]"
  let ?keys = "map fst (props ?h1 (length h))"
  from assms have row: "row = length h" and h': "h' = formatKeys (length h) ?keys ?h1"
    by (auto simp: formatRow_def Let_def)
  have "{k \<in> fst ` set (props h' row). startsWithDunder k}
          \<subseteq> {k \<in> fst ` set (props ?h1 (length h)). startsWithDunder k} - set ?keys"
    unfolding h' row by (rule formatKeys_keys) simp
  then show ?thesis by auto
qed

lemmas reshape_defs =
  formatRow_def formatKey_def Let_def props_def getProp_def deleteProp_def setProp_def keyParts_def
  trim_def isSpace_def startsWithDunder_def isArrayIndex_def isDigit_def flatRowHeap_def

lemma formatRow_flat_example:
  "formatRow flatRowHeap 0 =
     (1, [[(''a'', RNum 1), (''__r__c'', RNum 2)],
          [(''a'', RNum 1), (''r'', RRef 2)],
          [(''c'', RNum 2)]])"
  by (simp add: reshape_defs)

text \<open>
  C8. For the include \<open>{ r: { c: true } }\<close> on a table whose column \<open>r\<close> references the table
  \<open>s\<close>, the select compiler emits the column \<open>s.c\<close> under the alias \<open>__r__c\<close>; and reshaping the
  flat row \<open>{ a: 1, __r__c: 2 }\<close> (at address 0) yields a new row \<open>{ a: 1, r: { c: 2 } }\<close> (at
  address 1, its nested object at address 2): the aliased key is gone and its value sits
  under the relation key.
\<close>

theorem alias_reshape_round_trip:
  "map_sum id (\<lambda>(joins, selects). map sqlTokens selects)
     (generateInclude tModel [(''r'', JObj [(''c'', JBool True)])])
     = Inr [[Id ''s.c'', Kw ''AS'', Id ''__r__c'']]
   \<and> formatRow [[(''a'', RNum 1), (''__r__c'', RNum 2)]] 0 =
       (1, [[(''a'', RNum 1), (''__r__c'', RNum 2)],
            [(''a'', RNum 1), (''r'', RRef 2)],
            [(''c'', RNum 2)]])"
  using formatRow_flat_example
  by (simp add: flatRowHeap_def generateInclude_def example_defs objectKeys_def generateSelect_def
      selectColumn_def createIdentifier_def joinByFragment_def wordsOf_def isSpace_def emptySql_def)

text \<open>
  C9. Reshaping a row none of whose keys starts with the marker \<open>__\<close> returns a copy with
  exactly the properties of the row. A reshaped row is such a row: no key of the result of
  \<^verbatim>\<open>formatRow\<close> starts with the marker, so reshaping it again returns a copy of it, unchanged.
\<close>

theorem formatRow_idempotent:
  "((\<forall>k \<in> set (map fst (props h rowSource)). \<not> startsWithDunder k) \<longrightarrow>
      formatRow h rowSource = (length h, h @ [props h rowSource]))
   \<and> (formatRow h rowSource = (row, h') \<longrightarrow>
        (\<forall>k \<in> set (map fst (props h' row)). \<not> startsWithDunder k)
        \<and> formatRow h' row = (length h', h' @ [props h' row]))"
  using formatRow_plain formatRow_result_plain by blast

theorem formatRow_idempotent_witness:
  "formatRow [[(''a'', RNum 1), (''r'', RRef 1)], [(''c'', RNum 2)]] 0 =
     (2, [[(''a'', RNum 1), (''r'', RRef 1)], [(''c'', RNum 2)], [(''a'', RNum 1), (''r'', RRef 1)]])
   \<and> formatRow [[(''a'', RNum 1), (''__r__c'', RNum 2)], [(''a'', RNum 1), (''r'', RRef 2)],
                 [(''c'', RNum 2)]] 1 =
     (3, [[(''a'', RNum 1), (''__r__c'', RNum 2)], [(''a'', RNum 1), (''r'', RRef 2)],
          [(''c'', RNum 2)], [(''a'', RNum 1), (''r'', RRef 2)]])"
proof -
  let ?h = "[[(''a'', RNum 1), (''r'', RRef 1)], [(''c'', RNum 2)]]"
  have plain: "\<forall>k \<in> set (map fst (props ?h 0)). \<not> startsWithDunder k"
    by (simp add: props_def startsWithDunder_def)
  from formatRow_idempotent [of ?h 0, THEN conjunct1, THEN mp, OF plain]
  have one: "formatRow ?h 0 = (length ?h, ?h @ [props ?h 0])" .
  from formatRow_idempotent [of flatRowHeap 0, THEN conjunct2, THEN mp, OF formatRow_flat_example]
  have two: "formatRow [[(''a'', RNum 1), (''__r__c'', RNum 2)], [(''a'', RNum 1), (''r'', RRef 2)],
                 [(''c'', RNum 2)]] 1 =
     (3, [[(''a'', RNum 1), (''__r__c'', RNum 2)], [(''a'', RNum 1), (''r'', RRef 2)],
          [(''c'', RNum 2)], [(''a'', RNum 1), (''r'', RRef 2)]])"
    by (simp add: props_def)
  from one two show ?thesis by (simp add: props_def)
qed

text \<open>
  C10. Reshaping never writes to its input. The result of \<^verbatim>\<open>formatRow\<close> on a row of the heap is
  a new object, at the first address the heap did not have, and every object the heap had,
  the input row among them, has the properties it had; the same holds of the rows
  \<^verbatim>\<open>findMany\<close> reshapes one after the other.
\<close>

theorem formatRow_leaves_input_unchanged:
  assumes "rowSource < length h" and "formatRow h rowSource = (row, h')"
  shows "row \<noteq> rowSource \<and> row = length h \<and> length h < length h'
       \<and> props h' rowSource = props h rowSource \<and> take (length h) h' = h
       \<and> (formatRows h rows = (rows', h'') \<longrightarrow> length rows' = length rows \<and> take (length h) h'' = h)"
proof -
  from formatRow_frame [OF assms(2)]
  have f: "row = length h" "length h < length h'" "take (length h) h' = h"
    by simp_all
  have "h' ! rowSource = take (length h) h' ! rowSource" using assms(1) by simp
  with f assms(1) have "props h' rowSource = props h rowSource" by (simp add: props_def)
  with f assms(1) formatRows_frame [of h rows rows' h''] show ?thesis by auto
qed

lemma formatRows_flat_example:
  "formatRows flatRowHeap [0] =
     ([1], [[(''a'', RNum 1), (''__r__c'', RNum 2)],
            [(''a'', RNum 1), (''r'', RRef 2)],
            [(''c'', RNum 2)]])"
  by (simp add: formatRow_flat_example)

theorem formatRow_leaves_input_unchanged_witness:
  "formatRow flatRowHeap 0 =
     (1, [[(''a'', RNum 1), (''__r__c'', RNum 2)], [(''a'', RNum 1), (''r'', RRef 2)],
          [(''c'', RNum 2)]])
   \<and> formatRows flatRowHeap [0] =
     ([1], [[(''a'', RNum 1), (''__r__c'', RNum 2)], [(''a'', RNum 1), (''r'', RRef 2)],
            [(''c'', RNum 2)]])
   \<and> (0::nat) < length flatRowHeap \<and> (1::nat) \<noteq> 0
   \<and> props [[(''a'', RNum 1), (''__r__c'', RNum 2)], [(''a'', RNum 1), (''r'', RRef 2)],
             [(''c'', RNum 2)]] 0 = props flatRowHeap 0
   \<and> take (length flatRowHeap)
        [[(''a'', RNum 1), (''__r__c'', RNum 2)], [(''a'', RNum 1), (''r'', RRef 2)],
         [(''c'', RNum 2)]] = flatRowHeap"
proof -
  have len: "0 < length flatRowHeap" by (simp add: flatRowHeap_def)
  from formatRow_leaves_input_unchanged [OF len formatRow_flat_example, of "[0]"]
    formatRows_flat_example formatRow_flat_example len
  show ?thesis by simp
qed

section \<open>The query facade\<close>

text \<open>
  C5. When the executor returns rows for the statement of \<^verbatim>\<open>create\<close> or of \<^verbatim>\<open>update\<close>, the
  operation returns the row if there is exactly one, and otherwise (no row, or two or more)
  fails the assertion on the row count, the condition the spec names UnexpectedRowCount.
\<close>

theorem create_update_row_count:
  assumes "exec (createStatement m createArgs) = Inr rows"
    and "updateStatement m updateArgs = Inr statement"
    and "exec statement = Inr rows'"
  shows "create m exec createArgs =
           (if length rows = 1 then Inr (rows ! 0)
            else Inl (AssertionError ''expected to create a single row''))
       \<and> update m exec updateArgs =
           (if length rows' = 1 then Inr (rows' ! 0)
            else Inl (AssertionError ''expected to update a single row''))"
  using assms by (simp add: create_def update_def)

theorem create_update_row_count_witness:
  "create userModel (\<lambda>s. Inr [4])
     \<lparr>create_select = None, create_data = [(''username'', JStr ''ann'')]\<rparr> = Inr 4
   \<and> update userModel (\<lambda>s. Inr [4])
     \<lparr>update_select = None, update_data = [(''username'', JStr ''bob'')],
      update_where = [(''id'', JNum 1)]\<rparr> = Inr 4
   \<and> create userModel (\<lambda>s. Inr [])
     \<lparr>create_select = None, create_data = [(''username'', JStr ''ann'')]\<rparr>
       = Inl (AssertionError ''expected to create a single row'')
   \<and> update userModel (\<lambda>s. Inr [4, 5])
     \<lparr>update_select = None, update_data = [(''username'', JStr ''bob'')],
      update_where = [(''id'', JNum 1)]\<rparr>
       = Inl (AssertionError ''expected to update a single row'')"
proof -
  let ?c = "\<lparr>create_select = None, create_data = [(''username'', JStr ''ann'')]\<rparr>"
  let ?u = "\<lparr>update_select = None, update_data = [(''username'', JStr ''bob'')],
             update_where = [(''id'', JNum 1)]\<rparr>"
  obtain statement where u: "updateStatement userModel ?u = Inr statement"
    by (simp add: updateStatement_def)
  from create_update_row_count [of "\<lambda>s. Inr [4]" userModel ?c "[4]" ?u statement "[4]", OF _ u]
  have one: "create userModel (\<lambda>s. Inr [4]) ?c = Inr 4 \<and> update userModel (\<lambda>s. Inr [4]) ?u = Inr 4"
    by simp
  from create_update_row_count [of "\<lambda>s. Inr []" userModel ?c "[]" ?u statement "[]", OF _ u]
  have none: "create userModel (\<lambda>s. Inr []) ?c = Inl (AssertionError ''expected to create a single row'')"
    by simp
  from create_update_row_count [of "\<lambda>s. Inr [4, 5]" userModel ?c "[4, 5]" ?u statement "[4, 5]", OF _ u]
  have two: "update userModel (\<lambda>s. Inr [4, 5]) ?u
               = Inl (AssertionError ''expected to update a single row'')"
    by simp
  from one none two show ?thesis by blast
qed

lemma generateOrderBy_no_order:
  "generateOrderBy (Suc d) m (JObj []) = Some (Inr emptySql)"
  by (simp add: generateOrderBy_def orderByFragment_def)

lemma findManyStatement_returns:
  assumes "args_orderBy args = None"
  shows "\<exists>r. findManyStatement (Suc d) m args = Some r"
proof (cases "generateInclude m (orDefault (args_include args) [])")
  case (Inl e)
  then show ?thesis by (simp add: findManyStatement_def)
next
  case (Inr js)
  obtain j s where js: "js = (j, s)" by (cases js)
  show ?thesis
  proof (cases "generateWhere m (orDefault (args_where args) []) (this_tableName m) True")
    case (Inl e)
    with Inr js show ?thesis by (simp add: findManyStatement_def)
  next
    case w: (Inr whereFragment)
    have "generateOrderBy (Suc d) m (JObj (orDefault (args_orderBy args) [])) = Some (Inr emptySql)"
      using assms generateOrderBy_no_order by (simp add: orDefault_def)
    with Inr js w show ?thesis by (simp add: findManyStatement_def)
  qed
qed

lemma findManyStatement_limit:
  assumes "findManyStatement depth m args = Some (Inr statement)"
    and "args_limit args = Some n" and "n \<noteq> 0"
  shows "\<exists>before after. sqlTokens statement = before @ [Kw ''LIMIT'', Par (JNum n)] @ after"
proof -
  from assms obtain joinFragment includeSelectFragment whereFragment orderFragment
    where st: "statement = Template
                      [Text ''\<newline>      SELECT '',
                       generateSelect (orDefault (args_select args) []) (this_tableName m) None False
                         (length includeSelectFragment > 0),
                       Text '' '',
                       clearFragmentArray includeSelectFragment,
                       Text '' FROM '',
                       Identifier (this_tableName m),
                       Text ''\<newline>      '',
                       clearFragmentArray joinFragment,
                       Text ''\<newline>      '',
                       whereFragment,
                       Text ''\<newline>      '',
                       Template [Text ''LIMIT '', Parameter (JNum n), Text ''''],
                       Text ''\<newline>      '',
                       orderFragment,
                       Text ''\<newline>    '']"
    by (auto simp: findManyStatement_def split: sum.splits option.splits prod.splits)
  have "sqlTokens statement =
          sqlTokens (Template
                      [Text ''\<newline>      SELECT '',
                       generateSelect (orDefault (args_select args) []) (this_tableName m) None False
                         (length includeSelectFragment > 0),
                       Text '' '',
                       clearFragmentArray includeSelectFragment,
                       Text '' FROM '',
                       Identifier (this_tableName m),
                       Text ''\<newline>      '',
                       clearFragmentArray joinFragment,
                       Text ''\<newline>      '',
                       whereFragment])
          @ [Kw ''LIMIT'', Par (JNum n)] @ sqlTokens orderFragment"
    by (simp add: st wordsOf_def isSpace_def)
  then show ?thesis by blast
qed

text \<open>
  C6. \<^verbatim>\<open>find\<close> runs \<^verbatim>\<open>findMany\<close> on the caller's \<^verbatim>\<open>select\<close>, \<^verbatim>\<open>where\<close> and \<^verbatim>\<open>include\<close>, with the
  limit set to one and no order, and turns its result into the sole element or the null
  marker. The statement always compiles to a result (a fragment or an exception) when the
  call depth is not zero, and it carries \<open>LIMIT 1\<close>. When the executor returns rows for the
  statement, \<^verbatim>\<open>find\<close> returns normally: the reshaped row when exactly one row came back, and
  the null marker otherwise, in particular on an empty result.
\<close>

theorem find_sole_row_or_null:
  "findOne depth m exec h args =
     map_option (map_sum id (\<lambda>(data, h'). (if length data = 1 then Some (data ! 0) else None, h')))
       (findMany depth m exec h
          \<lparr>args_select = find_select args, args_where = find_where args,
           args_include = find_include args, args_limit = Some 1, args_orderBy = None\<rparr>)
   \<and> (0 < depth \<longrightarrow>
        (\<exists>r. findManyStatement depth m
               \<lparr>args_select = find_select args, args_where = find_where args,
                args_include = find_include args, args_limit = Some 1, args_orderBy = None\<rparr>
             = Some r))
   \<and> (findManyStatement depth m
          \<lparr>args_select = find_select args, args_where = find_where args,
           args_include = find_include args, args_limit = Some 1, args_orderBy = None\<rparr>
        = Some (Inr statement) \<and> exec statement = Inr rows \<longrightarrow>
        (\<exists>before after. sqlTokens statement = before @ [Kw ''LIMIT'', Par (JNum 1)] @ after)
        \<and> findMany depth m exec h
            \<lparr>args_select = find_select args, args_where = find_where args,
             args_include = find_include args, args_limit = Some 1, args_orderBy = None\<rparr>
          = Some (Inr (formatRows h rows))
        \<and> findOne depth m exec h args =
            Some (Inr (if length rows = 1 then Some (fst (formatRow h (rows ! 0))) else None,
                       snd (formatRows h rows))))"
proof (intro conjI impI)
  let ?args = "\<lparr>args_select = find_select args, args_where = find_where args,
                 args_include = find_include args, args_limit = Some 1, args_orderBy = None\<rparr>"
  show delegate: "findOne depth m exec h args =
     map_option (map_sum id (\<lambda>(data, h'). (if length data = 1 then Some (data ! 0) else None, h')))
       (findMany depth m exec h ?args)"
    by (simp add: findOne_def withLimitOne_def split: option.splits sum.splits prod.splits)
  {
    assume "0 < depth"
    then obtain d where "depth = Suc d" by (cases depth) simp_all
    then show "\<exists>r. findManyStatement depth m ?args = Some r"
      using findManyStatement_returns [of ?args d m] by simp
  }
  assume a: "findManyStatement depth m ?args = Some (Inr statement) \<and> exec statement = Inr rows"
  then show "\<exists>before after. sqlTokens statement = before @ [Kw ''LIMIT'', Par (JNum 1)] @ after"
    using findManyStatement_limit [of depth m ?args statement 1] by simp
  from a show many: "findMany depth m exec h ?args = Some (Inr (formatRows h rows))"
    by (simp add: findMany_def)
  obtain data h' where fr: "formatRows h rows = (data, h')" by (cases "formatRows h rows")
  from formatRows_frame [OF fr] have len: "length data = length rows" by simp
  have sole: "data ! 0 = fst (formatRow h (rows ! 0))" if "length rows = 1"
  proof -
    from that obtain r where r: "rows = [r]" by (cases rows) simp_all
    with fr show ?thesis by (auto split: prod.splits)
  qed
  from many fr len sole
  show "findOne depth m exec h args =
            Some (Inr (if length rows = 1 then Some (fst (formatRow h (rows ! 0))) else None,
                       snd (formatRows h rows)))"
    unfolding delegate by simp
qed

theorem find_sole_row_or_null_witness:
  "findOne (Suc 0) userModel
     (\<lambda>s. if sqlTokens s =
             [Kw ''SELECT'', Id ''user_.id'', Kw '','', Id ''user_.username'', Kw '','',
              Id ''avatar_.src'', Kw ''AS'', Id ''__avatar_id__src'', Kw ''FROM'', Id ''user_'',
              Kw ''JOIN'', Id ''avatar_'', Kw ''ON'', Id ''user_.avatar_id'', Kw ''='',
              Id ''avatar_.id'', Kw ''WHERE'', Id ''user_.username'', Kw ''='', Par (JStr ''ann''),
              Kw ''LIMIT'', Par (JNum 1)]
          then Inr [0] else Inl (ExecutorFailure ''unexpected statement''))
     flatRowHeap
     \<lparr>find_select = Some [''id'', ''username''],
      find_where = Some [(''username'', JStr ''ann'')],
      find_include = Some [(''avatar_id'', JObj [(''src'', JBool True)])]\<rparr>
     = Some (Inr (Some 1, [[(''a'', RNum 1), (''__r__c'', RNum 2)],
                           [(''a'', RNum 1), (''r'', RRef 2)],
                           [(''c'', RNum 2)]]))
   \<and> findOne (Suc 0) userModel
     (\<lambda>s. if sqlTokens s =
             [Kw ''SELECT'', Id ''user_.id'', Kw '','', Id ''user_.username'', Kw '','',
              Id ''avatar_.src'', Kw ''AS'', Id ''__avatar_id__src'', Kw ''FROM'', Id ''user_'',
              Kw ''JOIN'', Id ''avatar_'', Kw ''ON'', Id ''user_.avatar_id'', Kw ''='',
              Id ''avatar_.id'', Kw ''WHERE'', Id ''user_.username'', Kw ''='', Par (JStr ''ann''),
              Kw ''LIMIT'', Par (JNum 1)]
          then Inr [] else Inl (ExecutorFailure ''unexpected statement''))
     flatRowHeap
     \<lparr>find_select = Some [''id'', ''username''],
      find_where = Some [(''username'', JStr ''ann'')],
      find_include = Some [(''avatar_id'', JObj [(''src'', JBool True)])]\<rparr>
     = Some (Inr (None, flatRowHeap))
   \<and> findOne (Suc 0) userModel
     (\<lambda>s. if sqlTokens s =
             [Kw ''SELECT'', Id ''user_.id'', Kw '','', Id ''user_.username'', Kw '','',
              Id ''avatar_.src'', Kw ''AS'', Id ''__avatar_id__src'', Kw ''FROM'', Id ''user_'',
              Kw ''JOIN'', Id ''avatar_'', Kw ''ON'', Id ''user_.avatar_id'', Kw ''='',
              Id ''avatar_.id'', Kw ''WHERE'', Id ''user_.username'', Kw ''='', Par (JStr ''ann''),
              Kw ''LIMIT'', Par (JNum 1)]
          then Inr [0, 0] else Inl (ExecutorFailure ''unexpected statement''))
     flatRowHeap
     \<lparr>find_select = Some [''id'', ''username''],
      find_where = Some [(''username'', JStr ''ann'')],
      find_include = Some [(''avatar_id'', JObj [(''src'', JBool True)])]\<rparr>
     = Some (Inr (None, snd (formatRows flatRowHeap [0, 0])))
   \<and> map_option (map_sum id sqlTokens)
       (findManyStatement (Suc 0) userModel
          \<lparr>args_select = Some [''id'', ''username''],
      args_where = Some [(''username'', JStr ''ann'')],
      args_include = Some [(''avatar_id'', JObj [(''src'', JBool True)])],
      args_limit = Some 1, args_orderBy = None\<rparr>)
     = Some (Inr [Kw ''SELECT'', Id ''user_.id'', Kw '','', Id ''user_.username'', Kw '','',
              Id ''avatar_.src'', Kw ''AS'', Id ''__avatar_id__src'', Kw ''FROM'', Id ''user_'',
              Kw ''JOIN'', Id ''avatar_'', Kw ''ON'', Id ''user_.avatar_id'', Kw ''='',
              Id ''avatar_.id'', Kw ''WHERE'', Id ''user_.username'', Kw ''='', Par (JStr ''ann''),
              Kw ''LIMIT'', Par (JNum 1)])"
proof -
  let ?a = "\<lparr>find_select = Some [''id'', ''username''],
      find_where = Some [(''username'', JStr ''ann'')],
      find_include = Some [(''avatar_id'', JObj [(''src'', JBool True)])]\<rparr>"
  let ?m = "\<lparr>args_select = Some [''id'', ''username''],
      args_where = Some [(''username'', JStr ''ann'')],
      args_include = Some [(''avatar_id'', JObj [(''src'', JBool True)])],
      args_limit = Some 1, args_orderBy = None\<rparr>"
  let ?t = "[Kw ''SELECT'', Id ''user_.id'', Kw '','', Id ''user_.username'', Kw '','',
              Id ''avatar_.src'', Kw ''AS'', Id ''__avatar_id__src'', Kw ''FROM'', Id ''user_'',
              Kw ''JOIN'', Id ''avatar_'', Kw ''ON'', Id ''user_.avatar_id'', Kw ''='',
              Id ''avatar_.id'', Kw ''WHERE'', Id ''user_.username'', Kw ''='', Par (JStr ''ann''),
              Kw ''LIMIT'', Par (JNum 1)]"
  obtain statement where s: "findManyStatement (Suc 0) userModel ?m = Some (Inr statement)"
    and t: "sqlTokens statement = ?t"
    by (simp add: findManyStatement_def orDefault_def generateInclude_def example_defs objectKeys_def
        generateOrderBy_def orderByFragment_def generateSelect_def selectColumn_def
        clearFragmentArray_def createIdentifier_def joinByFragment_def wordsOf_def isSpace_def
        emptySql_def)
  have shape: "findManyStatement (Suc 0) userModel ?m = Some (Inr statement) \<and> exec statement = Inr rows
      \<longrightarrow> findOne (Suc 0) userModel exec flatRowHeap ?a =
            Some (Inr (if length rows = 1 then Some (fst (formatRow flatRowHeap (rows ! 0))) else None,
                       snd (formatRows flatRowHeap rows)))" for exec rows
    using find_sole_row_or_null [of "Suc 0" userModel exec flatRowHeap ?a statement rows,
        THEN conjunct2, THEN conjunct2]
    by simp
  let ?e1 = "\<lambda>s. if sqlTokens s = ?t then Inr [0] else Inl (ExecutorFailure ''unexpected statement'')"
  let ?e0 = "\<lambda>s. if sqlTokens s = ?t then Inr [] else Inl (ExecutorFailure ''unexpected statement'')"
  let ?e2 = "\<lambda>s. if sqlTokens s = ?t then Inr [0, 0] else Inl (ExecutorFailure ''unexpected statement'')"
  have e1: "?e1 statement = Inr [0]" and e0: "?e0 statement = Inr []"
    and e2: "?e2 statement = Inr [0, 0]"
    by (simp_all add: t)
  from shape [of ?e1 "[0]"] s e1
  have "findOne (Suc 0) userModel ?e1 flatRowHeap ?a =
          Some (Inr (if length [0::nat] = 1 then Some (fst (formatRow flatRowHeap ([0] ! 0))) else None,
                     snd (formatRows flatRowHeap [0])))"
    by blast
  then have one: "findOne (Suc 0) userModel ?e1 flatRowHeap ?a =
          Some (Inr (Some 1, [[(''a'', RNum 1), (''__r__c'', RNum 2)],
                              [(''a'', RNum 1), (''r'', RRef 2)],
                              [(''c'', RNum 2)]]))"
    by (simp add: formatRow_flat_example)
  from shape [of ?e0 "[]"] s e0
  have "findOne (Suc 0) userModel ?e0 flatRowHeap ?a =
          Some (Inr (if length ([]::nat list) = 1 then Some (fst (formatRow flatRowHeap ([] ! 0))) else None,
                     snd (formatRows flatRowHeap [])))"
    by blast
  then have none: "findOne (Suc 0) userModel ?e0 flatRowHeap ?a = Some (Inr (None, flatRowHeap))"
    by simp
  from shape [of ?e2 "[0, 0]"] s e2
  have "findOne (Suc 0) userModel ?e2 flatRowHeap ?a =
          Some (Inr (if length [0::nat, 0] = 1 then Some (fst (formatRow flatRowHeap ([0, 0] ! 0))) else None,
                     snd (formatRows flatRowHeap [0, 0])))"
    by blast
  then have two: "findOne (Suc 0) userModel ?e2 flatRowHeap ?a =
          Some (Inr (None, snd (formatRows flatRowHeap [0, 0])))"
    by (simp del: formatRows.simps)
  have tokens: "map_option (map_sum id sqlTokens) (findManyStatement (Suc 0) userModel ?m)
                  = Some (Inr ?t)"
    unfolding s by (simp add: t)
  from one none two tokens show ?thesis by blast
qed

end
